theory Spec2Isabelle
  imports Main "HOL-Library.Word"
begin

unbundle bit_operations_syntax

section \<open>JavaScript values\<close>

text \<open>
  The values an item can carry (typedef \<open>S7DBDataValueType\<close>), what a decode can return, and
  the value \<open>undefined\<close>. Numbers are the integral ones; \<open>VNaN\<close> is the number NaN.
  \<open>VRec\<close> is the array of \<open>{name, type, value}\<close> objects that the IEC_TIMER decoder returns.
\<close>

datatype jsval =
    VUndef
  | VBool bool
  | VNum int
  | VNaN
  | VStr string
  | VArr "jsval list"
  | VRec "(string \<times> string \<times> jsval) list"

subsection \<open>Strings of numbers\<close>

definition digit_char :: "nat \<Rightarrow> char" where
  "digit_char d = char_of (48 + d)"

function show_nat :: "nat \<Rightarrow> string" where
  "show_nat n = (if n < 10 then [digit_char n] else show_nat (n div 10) @ [digit_char (n mod 10)])"
  by pat_completeness auto
termination
  by (relation "measure id") auto

declare show_nat.simps [simp del]

definition show_int :: "int \<Rightarrow> string" where
  "show_int i = (if i < 0 then CHR ''-'' # show_nat (nat (- i)) else show_nat (nat i))"

definition is_digit :: "char \<Rightarrow> bool" where
  "is_digit c = (48 \<le> (of_char c :: nat) \<and> (of_char c :: nat) \<le> 57)"

definition digit_val :: "char \<Rightarrow> nat" where
  "digit_val c = of_char c - 48"

definition read_nat :: "string \<Rightarrow> nat" where
  "read_nat s = foldl (\<lambda>acc c. 10 * acc + digit_val c) 0 s"

text \<open>
  \<open>Number(s)\<close> for a string: the empty string is 0, a run of decimal digits is its value,
  digits followed by \<open>e\<close> and digits is the scientific notation; every other string modelled
  here is NaN (\<open>None\<close>). Signs, fractions, blanks and the \<open>0x\<close> prefix do not occur in the
  strings this program converts, except the \<open>0x\<close> the S5TIME encoder writes itself, which
  has its own function below.
\<close>

definition str_to_number :: "string \<Rightarrow> int option" where
  "str_to_number s =
     (if s = [] then Some 0
      else if list_all is_digit s then Some (int (read_nat s))
      else (let m = takeWhile is_digit s; r = dropWhile is_digit s in
            if m \<noteq> [] \<and> r \<noteq> [] \<and> (hd r = CHR ''e'' \<or> hd r = CHR ''E'')
               \<and> tl r \<noteq> [] \<and> list_all is_digit (tl r)
            then Some (int (read_nat m * 10 ^ read_nat (tl r)))
            else None))"

text \<open>The unary plus: \<open>+value\<close>. \<open>None\<close> is NaN.\<close>

fun to_number :: "jsval \<Rightarrow> int option" where
  "to_number VUndef = None"
| "to_number (VBool b) = Some (if b then 1 else 0)"
| "to_number (VNum n) = Some n"
| "to_number VNaN = None"
| "to_number (VStr s) = str_to_number s"
| "to_number (VArr []) = Some 0"
| "to_number (VArr [VUndef]) = Some 0"
| "to_number (VArr [VBool b]) = None"
| "to_number (VArr [VRec r]) = (if r = [] then Some 0 else None)"
| "to_number (VArr [v]) = to_number v"
| "to_number (VArr (v # w # vs)) = None"
| "to_number (VRec r) = (if r = [] then Some 0 else None)"

text \<open>\<open>!!value\<close>\<close>

fun truthy :: "jsval \<Rightarrow> bool" where
  "truthy VUndef = False"
| "truthy (VBool b) = b"
| "truthy (VNum n) = (n \<noteq> 0)"
| "truthy VNaN = False"
| "truthy (VStr s) = (s \<noteq> [])"
| "truthy (VArr vs) = True"
| "truthy (VRec r) = True"

fun join_comma :: "string list \<Rightarrow> string" where
  "join_comma [] = []"
| "join_comma [s] = s"
| "join_comma (s # t # ss) = s @ '','' @ join_comma (t # ss)"

text \<open>\<open>value + ''\<close>\<close>

fun to_string :: "jsval \<Rightarrow> string" where
  "to_string VUndef = ''undefined''"
| "to_string (VBool b) = (if b then ''true'' else ''false'')"
| "to_string (VNum n) = show_int n"
| "to_string VNaN = ''NaN''"
| "to_string (VStr s) = s"
| "to_string (VArr vs) = join_comma (map (\<lambda>v. case v of VUndef \<Rightarrow> [] | _ \<Rightarrow> to_string v) vs)"
| "to_string (VRec r) = join_comma (map (\<lambda>_. ''[object Object]'') r)"

definition upper_char :: "char \<Rightarrow> char" where
  "upper_char c =
     (if 97 \<le> (of_char c :: nat) \<and> (of_char c :: nat) \<le> 122
      then char_of ((of_char c :: nat) - 32) else c)"

definition toLocaleUpperCase :: "string \<Rightarrow> string" where
  "toLocaleUpperCase s = map upper_char s"

section \<open>Data model\<close>

text \<open>
  \<open>S7DBStructureItem\<close>. An absent field is \<open>None\<close> (\<open>VUndef\<close> for the value, the empty
  string for the type, where the code only tests truthiness). \<open>size\<close> is the array count;
  the code treats every count that is not positive like an absent one, so it is a natural
  number. \<open>offset\<close> is the string \<open>toFixed(1)\<close> prints, a decimal number with one fractional
  digit, kept as the number of tenths it denotes (\<open>12.3\<close> is \<open>123\<close>).
\<close>

record item =
  iname :: string
  itype :: string
  istrlen :: "nat option"
  isize :: "nat option"
  ivalue :: jsval
  ioffset :: "nat option"

definition isBoolean :: "string \<Rightarrow> bool" where
  "isBoolean t = (t = ''BIT'' \<or> t = ''BOOL'')"

definition isString :: "string \<Rightarrow> bool" where
  "isString t = (t = ''STRING'')"

definition roundUpToEven :: "nat \<Rightarrow> nat" where
  "roundUpToEven n = n + n mod 2"

definition numberTypes :: "string list" where
  "numberTypes = [''SINT'', ''USINT'', ''INT'', ''UINT'', ''WORD'', ''DINT'', ''UDINT'', ''DWORD'',
     ''REAL'', ''FLOAT'', ''LREAL'', ''DOUBLE'', ''BIT'', ''BYTE'', ''TIME'', ''TIMER'', ''S5TIME'']"

definition objectTypes :: "string list" where
  "objectTypes = [''IEC_TIMER'']"

definition typeIsNumber :: "string \<Rightarrow> bool" where
  "typeIsNumber t = (toLocaleUpperCase t \<in> set numberTypes)"

definition typeIsObject :: "string \<Rightarrow> bool" where
  "typeIsObject t = (toLocaleUpperCase t \<in> set objectTypes)"

definition typeList :: "(string \<times> nat) list" where
  "typeList = [(''SINT'', 1), (''USINT'', 1), (''INT'', 2), (''UINT'', 2), (''WORD'', 2),
     (''DINT'', 4), (''UDINT'', 4), (''DWORD'', 4), (''REAL'', 4), (''FLOAT'', 4),
     (''LREAL'', 8), (''DOUBLE'', 8), (''CHAR'', 1), (''STRING'', 256), (''BIT'', 1),
     (''BOOL'', 1), (''BYTE'', 1), (''TIME'', 4), (''TIMER'', 4), (''S5TIME'', 2),
     (''IEC_TIMER'', 16)]"

definition variableTypeSize :: "string \<Rightarrow> nat" where
  "variableTypeSize t =
     (case map_of typeList (toLocaleUpperCase t) of
        Some n \<Rightarrow> (if n = 0 then 2 else n)
      | None \<Rightarrow> 2)"

section \<open>Layout Calculator\<close>

text \<open>
  The loop body of \<open>DBStructure_calculateSize\<close>, statement by statement. First the item is
  normalised in place: type in upper case (UINT when missing), array count (1 when missing
  or not positive), and for a STRING its capacity (254 when missing).
\<close>

definition calculateSize_annotate :: "item \<Rightarrow> item" where
  "calculateSize_annotate item0 =
     (let item1 = item0\<lparr>itype := (if itype item0 \<noteq> [] then toLocaleUpperCase (itype item0) else ''UINT'')\<rparr>;
          item2 = item1\<lparr>isize := Some (case isize item1 of Some n \<Rightarrow> (if n > 0 then n else 1) | None \<Rightarrow> 1)\<rparr>
      in if isString (itype item2)
         then item2\<lparr>istrlen := Some (case istrlen item2 of Some n \<Rightarrow> (if n = 0 then 254 else n) | None \<Rightarrow> 254)\<rparr>
         else item2)"

text \<open>\<open>typesize\<close> of the normalised item.\<close>

definition calculateSize_typesize :: "item \<Rightarrow> nat" where
  "calculateSize_typesize it =
     (let isStr = isString (itype it);
          strlen_temp = (if isStr then (case istrlen it of Some n \<Rightarrow> n | None \<Rightarrow> 0) + 2 else 0);
          strlen = strlen_temp + strlen_temp mod 2
      in if isStr then strlen else variableTypeSize (itype it))"

text \<open>
  The cursor \<open>(total_size, used_bits)\<close> before the offset is taken: a type that is not
  boolean closes an open byte, and a STRING starts on an even byte.
\<close>

definition calculateSize_align :: "bool \<Rightarrow> bool \<Rightarrow> nat \<Rightarrow> nat \<times> nat \<Rightarrow> nat \<times> nat" where
  "calculateSize_align isBool isStr typesize st =
     (let (total_size, used_bits) = st;
          (total_size1, used_bits1) =
             (if used_bits > 0 \<and> \<not> isBool
              then (if typesize > 1 then roundUpToEven (total_size + 1) else total_size + 1, 0)
              else (total_size, used_bits))
      in (if isStr then roundUpToEven total_size1 else total_size1, used_bits1))"

text \<open>The cursor after the item: the array branch and the single branch. \<open>Math.ceil(size / 16)\<close>
  is \<open>(sz + 15) div 16\<close>, \<open>sz\<close> being the item's \<open>size\<close>.\<close>

definition calculateSize_advance :: "bool \<Rightarrow> nat \<Rightarrow> nat \<Rightarrow> nat \<times> nat \<Rightarrow> nat \<times> nat" where
  "calculateSize_advance isBool typesize sz st =
     (let (total_size, used_bits) = st in
      if sz > 1
      then (let total_size1 = roundUpToEven (if used_bits > 0 then total_size + 1 else total_size);
                total_size2 = (if isBool then total_size1 + 2 * ((sz + 15) div 16)
                               else total_size1 + typesize * sz)
            in (roundUpToEven total_size2, 0))
      else if isBool
      then (if used_bits + 1 \<ge> 8 then (total_size + 1, 0) else (total_size, used_bits + 1))
      else (let total_size1 = (if used_bits > 0 then total_size + 1 else total_size);
                total_size2 = (if typesize > 1 then roundUpToEven total_size1 else total_size1)
            in (total_size2 + typesize, 0)))"

text \<open>
  One turn of the loop: the item as the turn leaves it, with its offset (in tenths, like
  \<open>start_offset\<close>), and the cursor after it.
\<close>

definition calculateSize_step :: "nat \<Rightarrow> nat \<times> nat \<Rightarrow> item \<Rightarrow> item \<times> (nat \<times> nat)" where
  "calculateSize_step start_offset st item0 =
     (let it = calculateSize_annotate item0;
          type = itype it;
          size = (case isize it of Some n \<Rightarrow> n | None \<Rightarrow> 1);
          isStr = isString type;
          isBool = isBoolean type;
          typesize = calculateSize_typesize it;
          st1 = calculateSize_align isBool isStr typesize st;
          it' = it\<lparr>ioffset := Some (start_offset + 10 * fst st1 + snd st1)\<rparr>
      in (it', calculateSize_advance isBool typesize size st1))"

fun calculateSize_loop :: "nat \<Rightarrow> nat \<times> nat \<Rightarrow> item list \<Rightarrow> item list \<times> (nat \<times> nat)" where
  "calculateSize_loop start_offset st [] = ([], st)"
| "calculateSize_loop start_offset st (it # its) =
     (let (it', st') = calculateSize_step start_offset st it;
          (its', st'') = calculateSize_loop start_offset st' its
      in (it' # its', st''))"

text \<open>
  \<open>DBStructure_calculateSize(items, start_offset)\<close>: the returned total size, and the items as
  the call leaves them.
\<close>

definition DBStructure_calculateSize :: "item list \<Rightarrow> nat \<Rightarrow> nat \<times> item list" where
  "DBStructure_calculateSize items start_offset =
     (let (items', (total_size, used_bits)) = calculateSize_loop start_offset (0, 0) items;
          total_size1 = (if used_bits > 0 then total_size + 1 else total_size)
      in (roundUpToEven total_size1, items'))"


text \<open>
  Class \<open>DBStructure\<close>. \<open>offset\<close> is in tenths like the item offsets: the Variable Router
  passes an item's offset, which has a fractional digit, as a datablock's starting offset.
\<close>

record DBStructure =
  db_name :: string
  db_db :: nat
  db_offset :: nat
  db_items :: "item list"
  db_size :: nat

section \<open>Node's Buffer\<close>

text \<open>
  A Buffer is its bytes. Every read and write checks its range and throws a RangeError
  otherwise: \<open>None\<close>. An integer write also throws for a value outside the range of its
  width; NaN (\<open>None\<close> as the value) passes that check and is stored as 0.
\<close>

type_synonym buffer = "8 word list"

definition be_value :: "8 word list \<Rightarrow> int" where
  "be_value bs = foldl (\<lambda>acc b. 256 * acc + uint b) 0 bs"

definition be_bytes :: "nat \<Rightarrow> int \<Rightarrow> 8 word list" where
  "be_bytes w v = map (\<lambda>i. word_of_int (v div 256 ^ (w - 1 - i))) [0..<w]"

definition write_bytes :: "buffer \<Rightarrow> nat \<Rightarrow> 8 word list \<Rightarrow> buffer option" where
  "write_bytes buf off bs =
     (if off + length bs \<le> length buf
      then Some (take off buf @ bs @ drop (off + length bs) buf)
      else None)"

definition read_bytes :: "buffer \<Rightarrow> nat \<Rightarrow> nat \<Rightarrow> 8 word list option" where
  "read_bytes buf off w =
     (if off + w \<le> length buf then Some (take w (drop off buf)) else None)"

definition readUIntBE :: "nat \<Rightarrow> buffer \<Rightarrow> nat \<Rightarrow> int option" where
  "readUIntBE w buf off = map_option be_value (read_bytes buf off w)"

definition readIntBE :: "nat \<Rightarrow> buffer \<Rightarrow> nat \<Rightarrow> int option" where
  "readIntBE w buf off =
     map_option (\<lambda>bs. if be_value bs < 2 ^ (8 * w - 1) then be_value bs
                        else be_value bs - 2 ^ (8 * w))
       (read_bytes buf off w)"

definition writeUIntBE :: "nat \<Rightarrow> buffer \<Rightarrow> int option \<Rightarrow> nat \<Rightarrow> buffer option" where
  "writeUIntBE w buf v off =
     (case v of
        None \<Rightarrow> write_bytes buf off (be_bytes w 0)
      | Some n \<Rightarrow> (if n < 0 \<or> n > 2 ^ (8 * w) - 1 then None
                   else write_bytes buf off (be_bytes w n)))"

definition writeIntBE :: "nat \<Rightarrow> buffer \<Rightarrow> int option \<Rightarrow> nat \<Rightarrow> buffer option" where
  "writeIntBE w buf v off =
     (case v of
        None \<Rightarrow> write_bytes buf off (be_bytes w 0)
      | Some n \<Rightarrow> (if n < - (2 ^ (8 * w - 1)) \<or> n > 2 ^ (8 * w - 1) - 1 then None
                   else write_bytes buf off (be_bytes w (n mod 2 ^ (8 * w)))))"

definition readUInt8 :: "buffer \<Rightarrow> nat \<Rightarrow> int option" where
  "readUInt8 = readUIntBE 1"

definition readInt8 :: "buffer \<Rightarrow> nat \<Rightarrow> int option" where
  "readInt8 = readIntBE 1"

definition readUInt16BE :: "buffer \<Rightarrow> nat \<Rightarrow> int option" where
  "readUInt16BE = readUIntBE 2"

definition readInt16BE :: "buffer \<Rightarrow> nat \<Rightarrow> int option" where
  "readInt16BE = readIntBE 2"

definition readUInt32BE :: "buffer \<Rightarrow> nat \<Rightarrow> int option" where
  "readUInt32BE = readUIntBE 4"

definition readInt32BE :: "buffer \<Rightarrow> nat \<Rightarrow> int option" where
  "readInt32BE = readIntBE 4"

definition writeUInt8 :: "buffer \<Rightarrow> int option \<Rightarrow> nat \<Rightarrow> buffer option" where
  "writeUInt8 = writeUIntBE 1"

definition writeInt8 :: "buffer \<Rightarrow> int option \<Rightarrow> nat \<Rightarrow> buffer option" where
  "writeInt8 = writeIntBE 1"

definition writeUInt16BE :: "buffer \<Rightarrow> int option \<Rightarrow> nat \<Rightarrow> buffer option" where
  "writeUInt16BE = writeUIntBE 2"

definition writeInt16BE :: "buffer \<Rightarrow> int option \<Rightarrow> nat \<Rightarrow> buffer option" where
  "writeInt16BE = writeIntBE 2"

definition writeUInt32BE :: "buffer \<Rightarrow> int option \<Rightarrow> nat \<Rightarrow> buffer option" where
  "writeUInt32BE = writeUIntBE 4"

definition writeInt32BE :: "buffer \<Rightarrow> int option \<Rightarrow> nat \<Rightarrow> buffer option" where
  "writeInt32BE = writeIntBE 4"

text \<open>
  The IEEE-754 conversions of \<open>writeFloatBE\<close>, \<open>readFloatBE\<close>, \<open>writeDoubleBE\<close> and
  \<open>readDoubleBE\<close> belong to Node and are not integer arithmetic: they are a parameter of the
  codec. Only the range check and the placement of the 4 or 8 bytes are modelled.
\<close>

record ieee754 =
  float_bytes :: "int option \<Rightarrow> 8 word list"
  bytes_float :: "8 word list \<Rightarrow> jsval"
  double_bytes :: "int option \<Rightarrow> 8 word list"
  bytes_double :: "8 word list \<Rightarrow> jsval"

definition writeFloatBE :: "ieee754 \<Rightarrow> buffer \<Rightarrow> int option \<Rightarrow> nat \<Rightarrow> buffer option" where
  "writeFloatBE fp buf v off = write_bytes buf off (take 4 (float_bytes fp v @ replicate 4 0))"

definition readFloatBE :: "ieee754 \<Rightarrow> buffer \<Rightarrow> nat \<Rightarrow> jsval option" where
  "readFloatBE fp buf off = map_option (bytes_float fp) (read_bytes buf off 4)"

definition writeDoubleBE :: "ieee754 \<Rightarrow> buffer \<Rightarrow> int option \<Rightarrow> nat \<Rightarrow> buffer option" where
  "writeDoubleBE fp buf v off = write_bytes buf off (take 8 (double_bytes fp v @ replicate 8 0))"

definition readDoubleBE :: "ieee754 \<Rightarrow> buffer \<Rightarrow> nat \<Rightarrow> jsval option" where
  "readDoubleBE fp buf off = map_option (bytes_double fp) (read_bytes buf off 8)"

text \<open>
  \<open>e.toString()\<close> of the RangeError: its wording is Node's and changes with the version.
\<close>

definition RangeError_text :: string where
  "RangeError_text = ''RangeError''"

section \<open>Decoder\<close>

text \<open>
  JavaScript's \<open>%\<close> takes the sign of the dividend; \<open>>>\<close> and \<open><<\<close> use the count modulo 32
  and work on 32-bit two's complement.
\<close>

definition js_rem :: "int \<Rightarrow> int \<Rightarrow> int" where
  "js_rem a b = sgn a * (\<bar>a\<bar> mod \<bar>b\<bar>)"

definition js_shr :: "int \<Rightarrow> int \<Rightarrow> int" where
  "js_shr x i = signed_take_bit 31 x div 2 ^ nat (i mod 32)"

definition js_shl :: "int \<Rightarrow> int \<Rightarrow> int" where
  "js_shl x i = signed_take_bit 31 (x * 2 ^ nat (i mod 32))"

definition parseBooleanFromBuffer :: "buffer \<Rightarrow> nat \<Rightarrow> int \<Rightarrow> bool option" where
  "parseBooleanFromBuffer buf off index =
     (let i = js_rem index 8;
          add = (if index > 7 then 1 else 0)
      in case readInt8 buf (off + add) of
           None \<Rightarrow> None
         | Some byte \<Rightarrow> Some ((js_shr byte i) AND 1 \<noteq> 0))"

definition parseTimeFromBuffer :: "buffer \<Rightarrow> nat \<Rightarrow> int option" where
  "parseTimeFromBuffer buf off = readUInt32BE buf off"

definition S5Time_timebase :: "nat list" where
  "S5Time_timebase = [10, 100, 1000, 10000]"

definition hex_char :: "nat \<Rightarrow> char" where
  "hex_char d = (if d < 10 then char_of (48 + d) else char_of (87 + d))"

text \<open>\<open>n.toString(16)\<close>\<close>

function show_hex :: "nat \<Rightarrow> string" where
  "show_hex n = (if n < 16 then [hex_char n] else show_hex (n div 16) @ [hex_char (n mod 16)])"
  by pat_completeness auto
termination
  by (relation "measure id") auto

declare show_hex.simps [simp del]

definition parseS5TimeFromBuffer :: "buffer \<Rightarrow> nat \<Rightarrow> jsval option" where
  "parseS5TimeFromBuffer buf off =
     (case readUInt16BE buf off of
        None \<Rightarrow> None
      | Some raw_value \<Rightarrow>
         (let factor = nat (js_shr (raw_value AND 0x3000) 12);
              v = str_to_number (show_hex (nat (raw_value AND 0x0FFF)))
          in case v of
               None \<Rightarrow> Some VNaN
             | Some n \<Rightarrow> Some (VNum (n * int (S5Time_timebase ! factor)))))"

definition stringTypeSize :: "buffer \<Rightarrow> nat \<Rightarrow> nat option" where
  "stringTypeSize buf off =
     (case readUInt8 buf off of
        None \<Rightarrow> None
      | Some m \<Rightarrow> (let max_length = nat m + 2 in Some (max_length + max_length mod 2)))"

definition parseCharacterFromBuffer :: "buffer \<Rightarrow> nat \<Rightarrow> string option" where
  "parseCharacterFromBuffer buf off = map_option (\<lambda>n. [char_of (nat n)]) (readUInt8 buf off)"

text \<open>
  The loop of \<open>parseStringFromBuffer\<close>: the characters read so far stay in \<open>output\<close> when a
  read throws.
\<close>

fun parseString_loop :: "buffer \<Rightarrow> nat \<Rightarrow> nat \<Rightarrow> string \<Rightarrow> string" where
  "parseString_loop buf off 0 output = output"
| "parseString_loop buf off (Suc k) output =
     (case parseCharacterFromBuffer buf off of
        None \<Rightarrow> output
      | Some c \<Rightarrow> parseString_loop buf (off + 1) k (output @ c))"

text \<open>
  \<open>expected_strlen\<close> only decides whether a line is logged. The whole body is in a
  \<open>try\<close> whose \<open>catch\<close> logs and falls through to \<open>return output\<close>.
\<close>

definition parseStringFromBuffer :: "buffer \<Rightarrow> nat \<Rightarrow> nat \<Rightarrow> string" where
  "parseStringFromBuffer buf off expected_strlen =
     (case stringTypeSize buf off of
        None \<Rightarrow> []
      | Some actual_strlen \<Rightarrow>
         (case readUInt8 buf (off + 1) of
            None \<Rightarrow> []
          | Some strlen \<Rightarrow> parseString_loop buf (off + 2) (nat strlen) []))"

definition num_val :: "int option \<Rightarrow> jsval option" where
  "num_val r = map_option VNum r"

text \<open>
  The \<open>switch\<close> of \<open>parseValueFromBuffer\<close> without its IEC_TIMER case; \<open>None\<close> is a thrown
  RangeError.
\<close>

definition parseValue_switch :: "ieee754 \<Rightarrow> buffer \<Rightarrow> string \<Rightarrow> nat \<Rightarrow> int \<Rightarrow> nat \<Rightarrow> jsval option" where
  "parseValue_switch fp buf type off i expected_strlen =
     (let t = toLocaleUpperCase (if type \<noteq> [] then type else ''UINT'') in
      if t = ''BIT'' then map_option VBool (parseBooleanFromBuffer buf off i)
      else if t = ''BOOL'' then map_option VBool (parseBooleanFromBuffer buf off i)
      else if t = ''BYTE'' then num_val (readUInt8 buf off)
      else if t = ''SINT'' then num_val (readInt8 buf off)
      else if t = ''USINT'' then num_val (readUInt8 buf off)
      else if t = ''INT'' then num_val (readInt16BE buf off)
      else if t = ''UINT'' then num_val (readUInt16BE buf off)
      else if t = ''WORD'' then num_val (readUInt16BE buf off)
      else if t = ''DINT'' then num_val (readInt32BE buf off)
      else if t = ''UDINT'' then num_val (readUInt32BE buf off)
      else if t = ''DWORD'' then num_val (readUInt32BE buf off)
      else if t = ''REAL'' then readFloatBE fp buf off
      else if t = ''FLOAT'' then readFloatBE fp buf off
      else if t = ''LREAL'' then readDoubleBE fp buf off
      else if t = ''DOUBLE'' then readDoubleBE fp buf off
      else if t = ''CHAR'' then map_option VStr (parseCharacterFromBuffer buf off)
      else if t = ''STRING'' then Some (VStr (parseStringFromBuffer buf off expected_strlen))
      else if t = ''TIME'' then num_val (parseTimeFromBuffer buf off)
      else if t = ''TIMER'' then num_val (parseTimeFromBuffer buf off)
      else if t = ''S5TIME'' then parseS5TimeFromBuffer buf off
      else num_val (readUInt16BE buf off))"

definition parse_error_message :: "string \<Rightarrow> nat \<Rightarrow> string" where
  "parse_error_message type off =
     ''S7 internal parseValueFromBuffer '' @ type @ '' '' @ show_nat off @ '' - '' @ RangeError_text"

text \<open>
  \<open>parseValueFromBuffer\<close> for the types other than IEC_TIMER: the \<open>switch\<close> inside the
  \<open>try\<close>, the message as the value when it throws.
\<close>

definition parseValueFromBuffer_scalar :: "ieee754 \<Rightarrow> buffer \<Rightarrow> string \<Rightarrow> nat \<Rightarrow> int \<Rightarrow> nat \<Rightarrow> jsval" where
  "parseValueFromBuffer_scalar fp buf type off i expected_strlen =
     (case parseValue_switch fp buf type off i expected_strlen of
        Some v \<Rightarrow> v
      | None \<Rightarrow> VStr (parse_error_message type off))"

text \<open>
  \<open>parseIECTimerFromBuffer\<close> calls \<open>parseValueFromBuffer\<close> with the types UDINT, TIME, BOOL
  and UINT only, so with its scalar part. The \<open>size: 1\<close> of each entry is dropped by the
  caller and is not kept.
\<close>

definition parseIECTimerFromBuffer :: "ieee754 \<Rightarrow> buffer \<Rightarrow> nat \<Rightarrow> (string \<times> string \<times> jsval) list" where
  "parseIECTimerFromBuffer fp buf off =
     [(''start'', ''UDINT'', parseValueFromBuffer_scalar fp buf ''UDINT'' off 0 256),
      (''PT'', ''TIME'', parseValueFromBuffer_scalar fp buf ''TIME'' (off + 4) 0 256),
      (''ET'', ''TIME'', parseValueFromBuffer_scalar fp buf ''TIME'' (off + 8) 0 256),
      (''IN'', ''BOOL'', parseValueFromBuffer_scalar fp buf ''BOOL'' (off + 12) 0 256),
      (''Q'', ''BOOL'', parseValueFromBuffer_scalar fp buf ''BOOL'' (off + 12) 1 256),
      (''end'', ''UINT'', parseValueFromBuffer_scalar fp buf ''UINT'' (off + 14) 0 256)]"

definition parseValueFromBuffer :: "ieee754 \<Rightarrow> buffer \<Rightarrow> string \<Rightarrow> nat \<Rightarrow> int \<Rightarrow> nat \<Rightarrow> jsval" where
  "parseValueFromBuffer fp buf type off i expected_strlen =
     (if toLocaleUpperCase (if type \<noteq> [] then type else ''UINT'') = ''IEC_TIMER''
      then VRec (parseIECTimerFromBuffer fp buf off)
      else parseValueFromBuffer_scalar fp buf type off i expected_strlen)"


text \<open>\<open>isNumber ? (isFinite(+value) ? +value : 0) : value\<close>\<close>

definition coerce_number :: "string \<Rightarrow> jsval \<Rightarrow> jsval" where
  "coerce_number type v =
     (if typeIsNumber type then (case to_number v of Some n \<Rightarrow> VNum n | None \<Rightarrow> VNum 0) else v)"

text \<open>\<open>(item.strlen || 254) + 2\<close>, rounded up to even, for a STRING; the table otherwise.\<close>

definition item_typesize :: "item \<Rightarrow> string \<Rightarrow> nat" where
  "item_typesize it type =
     (let strlen_temp = (case istrlen it of Some n \<Rightarrow> (if n = 0 then 254 else n) | None \<Rightarrow> 254) + 2;
          strlen = strlen_temp + strlen_temp mod 2
      in if isString type then strlen else variableTypeSize type)"

definition size_gt_1 :: "nat option \<Rightarrow> bool" where
  "size_gt_1 size_opt = (case size_opt of Some n \<Rightarrow> n > 1 | None \<Rightarrow> False)"

text \<open>
  The cursor before an item is read or written, the same statements in \<open>DBStructure_parse\<close>
  and \<open>DBStructure_encode\<close>: a boolean array and every other type close the open byte, a
  single boolean takes the next bit.
\<close>

definition cursor_enter :: "bool \<Rightarrow> nat option \<Rightarrow> nat \<times> nat \<Rightarrow> nat \<times> nat" where
  "cursor_enter isBool size_opt st =
     (let (offset, bits) = st in
      if isBool \<and> size_gt_1 size_opt then ((if bits > 0 then offset + 1 else offset), 0)
      else if isBool then (offset, bits + 1)
      else ((if bits > 0 then offset + 1 else offset), 0))"

text \<open>The cursor after one element of an array.\<close>

definition cursor_next_element :: "bool \<Rightarrow> nat \<Rightarrow> nat \<times> nat \<Rightarrow> nat \<times> nat" where
  "cursor_next_element isBool typesize st =
     (let (offset, bits) = st in
      if isBool then (if bits + 1 \<ge> 8 then (offset + 1, 0) else (offset, bits + 1))
      else (offset + typesize, bits))"

text \<open>The cursor after a single item.\<close>

definition cursor_leave :: "bool \<Rightarrow> nat \<Rightarrow> nat \<times> nat \<Rightarrow> nat \<times> nat" where
  "cursor_leave isBool typesize st =
     (let (offset, bits) = st;
          offset1 = offset + (if isBool then 0 else typesize)
      in if bits \<ge> 8 then (offset1 + 1, 0) else (offset1, bits))"

fun parse_array_loop ::
  "ieee754 \<Rightarrow> buffer \<Rightarrow> string \<Rightarrow> nat \<Rightarrow> nat \<Rightarrow> nat \<times> nat \<Rightarrow> jsval list \<times> (nat \<times> nat)" where
  "parse_array_loop fp buf type typesize 0 st = ([], st)"
| "parse_array_loop fp buf type typesize (Suc k) st =
     (let value0 = parseValueFromBuffer fp buf type (fst st) (int (snd st) - 1) typesize;
          value1 = coerce_number type value0;
          value2 = (if isBoolean type then VBool (truthy value1) else value1);
          (vs, st') = parse_array_loop fp buf type typesize k (cursor_next_element (isBoolean type) typesize st)
      in (value2 # vs, st'))"

definition flatten_object :: "string \<Rightarrow> jsval \<Rightarrow> (string \<times> string \<times> jsval) list" where
  "flatten_object prefix v =
     (case v of VRec r \<Rightarrow> map (\<lambda>(n, t, x). (prefix @ ''.'' @ n, t, x)) r | _ \<Rightarrow> [])"

text \<open>
  One turn of the loop of \<open>DBStructure_parse\<close>: the entries pushed to \<open>output\<close> and the cursor
  \<open>(offset, bits)\<close> after the item.
\<close>

definition parse_item ::
  "ieee754 \<Rightarrow> buffer \<Rightarrow> nat \<times> nat \<Rightarrow> item \<Rightarrow> (string \<times> string \<times> jsval) list \<times> (nat \<times> nat)" where
  "parse_item fp buf st0 it =
     (let type = toLocaleUpperCase (itype it);
          name = iname it;
          isBool = isBoolean type;
          typesize = item_typesize it type;
          st1 = cursor_enter isBool (isize it) st0;
          (val, st2) =
             (if size_gt_1 (isize it)
              then (let (vs, st') = parse_array_loop fp buf type typesize (case isize it of Some n \<Rightarrow> n | None \<Rightarrow> 0)
                                      (roundUpToEven (fst st1), snd st1)
                    in (VArr vs, (roundUpToEven (fst st'), snd st')))
              else (let offset = (if typesize > 1 then roundUpToEven (fst st1) else fst st1)
                    in (parseValueFromBuffer fp buf type offset (int (snd st1) - 1) typesize,
                        cursor_leave isBool typesize (offset, snd st1))))
      in if typeIsObject type
         then (if size_gt_1 (isize it)
               then (case val of
                       VArr vs \<Rightarrow> (concat (map (\<lambda>(i, v). flatten_object (name @ ''['' @ show_nat i @ '']'') v)
                                            (zip [0..<length vs] vs)), st2)
                     | _ \<Rightarrow> ([], st2))
               else (flatten_object name val, st2))
         else ([(name, type, val)], st2))"

fun parse_loop ::
  "ieee754 \<Rightarrow> buffer \<Rightarrow> nat \<times> nat \<Rightarrow> item list \<Rightarrow> (string \<times> string \<times> jsval) list" where
  "parse_loop fp buf st [] = []"
| "parse_loop fp buf st (it # its) =
     (let (entries, st') = parse_item fp buf st it in entries @ parse_loop fp buf st' its)"

definition DBStructure_parse :: "ieee754 \<Rightarrow> DBStructure \<Rightarrow> buffer \<Rightarrow> (string \<times> string \<times> jsval) list" where
  "DBStructure_parse fp db buf = parse_loop fp buf (0, 0) (db_items db)"

section \<open>Encoder\<close>

text \<open>
  A write that throws leaves the buffer as it is; the \<open>catch\<close> of \<open>encodeValueToBuffer\<close> logs
  and returns, so every encoder below returns the buffer it has reached.
\<close>

definition written :: "buffer \<Rightarrow> buffer option \<Rightarrow> buffer" where
  "written buf r = (case r of Some buf' \<Rightarrow> buf' | None \<Rightarrow> buf)"

definition encodeBooleanToBuffer :: "bool \<Rightarrow> buffer \<Rightarrow> nat \<Rightarrow> int \<Rightarrow> buffer option" where
  "encodeBooleanToBuffer v buf off index =
     (case readUInt8 buf off of
        None \<Rightarrow> None
      | Some byte \<Rightarrow>
         (let byte' = (if v then byte OR js_shl 1 index else byte AND NOT (js_shl 1 index))
          in writeUInt8 buf (Some byte') off))"

definition charCodeAt0 :: "string \<Rightarrow> int option" where
  "charCodeAt0 s = (case s of [] \<Rightarrow> None | c # _ \<Rightarrow> Some (of_char c))"

definition encodeCharacterToBuffer :: "string \<Rightarrow> buffer \<Rightarrow> nat \<Rightarrow> buffer option" where
  "encodeCharacterToBuffer v buf off = writeUInt8 buf (charCodeAt0 v) off"

fun encodeString_loop :: "string \<Rightarrow> buffer \<Rightarrow> nat \<Rightarrow> buffer" where
  "encodeString_loop [] buf off = buf"
| "encodeString_loop (c # cs) buf off =
     (case encodeCharacterToBuffer [c] buf off of
        None \<Rightarrow> buf
      | Some buf' \<Rightarrow> encodeString_loop cs buf' (off + 1))"

definition encodeStringToBuffer :: "string \<Rightarrow> buffer \<Rightarrow> nat \<Rightarrow> nat \<Rightarrow> buffer" where
  "encodeStringToBuffer v buf off strlen =
     (let chars = v;
          cl = int (length chars);
          strlen_max = int strlen - 2;
          strlen_temp = (if cl > strlen_max then strlen_max else cl)
      in case writeUInt8 buf (Some strlen_max) off of
           None \<Rightarrow> buf
         | Some buf1 \<Rightarrow>
            (case writeUInt8 buf1 (Some strlen_temp) (off + 1) of
               None \<Rightarrow> buf1
             | Some buf2 \<Rightarrow> encodeString_loop (take (nat strlen_temp) chars) buf2 (off + 2)))"

definition encodeTimeToBuffer :: "int option \<Rightarrow> buffer \<Rightarrow> nat \<Rightarrow> buffer option" where
  "encodeTimeToBuffer v buf off = writeUInt32BE buf v off"

definition hex_digit_val :: "char \<Rightarrow> nat" where
  "hex_digit_val c = (if is_digit c then of_char c - 48 else of_char c - 87)"

text \<open>\<open>+('0x' + val)\<close> for the decimal digits of a number \<open>val\<close>.\<close>

definition read_hex :: "string \<Rightarrow> nat" where
  "read_hex s = foldl (\<lambda>acc c. 16 * acc + hex_digit_val c) 0 s"

text \<open>
  \<open>encodeS5TimeToBuffer\<close>. With NaN both comparisons of the clamp and all three of the
  factor are false, and \<open>NaN | 0\<close> is 0.
\<close>

definition encodeS5TimeToBuffer :: "int option \<Rightarrow> buffer \<Rightarrow> nat \<Rightarrow> buffer option" where
  "encodeS5TimeToBuffer v buf off =
     (let value = (case v of None \<Rightarrow> None
                   | Some n \<Rightarrow> Some (if n > 9990000 then 9990000 else if n < 0 then 0 else n));
          factor = (case value of None \<Rightarrow> (3::nat)
                    | Some n \<Rightarrow> (if n < 9990 then 0 else if n < 99900 then 1 else if n < 999000 then 2 else 3));
          quotient = (case value of None \<Rightarrow> 0 | Some n \<Rightarrow> nat (n div 10 ^ (factor + 1)));
          val = read_nat (take 3 (show_nat quotient));
          output = js_shl (int factor) 12 OR (int (read_hex (show_nat val)) AND 0x0FFF)
      in writeUInt16BE buf (Some output) off)"

text \<open>
  The \<open>switch\<close> of \<open>encodeValueToBuffer\<close>. It has no case for BIT and none for IEC_TIMER (the
  latter is commented out): both take the default.
\<close>

definition encodeValueToBuffer :: "ieee754 \<Rightarrow> buffer \<Rightarrow> jsval \<Rightarrow> string \<Rightarrow> nat \<Rightarrow> int \<Rightarrow> nat \<Rightarrow> buffer" where
  "encodeValueToBuffer fp buf v type off i strlen =
     (let t = toLocaleUpperCase (if type \<noteq> [] then type else ''UINT'') in
      if t = ''BOOL'' then written buf (encodeBooleanToBuffer (truthy v) buf off i)
      else if t = ''BYTE'' then written buf (writeUInt8 buf (to_number v) off)
      else if t = ''SINT'' then written buf (writeInt8 buf (to_number v) off)
      else if t = ''USINT'' then written buf (writeUInt8 buf (to_number v) off)
      else if t = ''INT'' then written buf (writeInt16BE buf (to_number v) off)
      else if t = ''UINT'' then written buf (writeUInt16BE buf (to_number v) off)
      else if t = ''WORD'' then written buf (writeUInt16BE buf (to_number v) off)
      else if t = ''DINT'' then written buf (writeInt32BE buf (to_number v) off)
      else if t = ''UDINT'' then written buf (writeUInt32BE buf (to_number v) off)
      else if t = ''DWORD'' then written buf (writeUInt32BE buf (to_number v) off)
      else if t = ''REAL'' then written buf (writeFloatBE fp buf (to_number v) off)
      else if t = ''FLOAT'' then written buf (writeFloatBE fp buf (to_number v) off)
      else if t = ''LREAL'' then written buf (writeDoubleBE fp buf (to_number v) off)
      else if t = ''DOUBLE'' then written buf (writeDoubleBE fp buf (to_number v) off)
      else if t = ''CHAR'' then written buf (encodeCharacterToBuffer (to_string v) buf off)
      else if t = ''STRING'' then encodeStringToBuffer (to_string v) buf off strlen
      else if t = ''TIME'' then written buf (encodeTimeToBuffer (to_number v) buf off)
      else if t = ''TIMER'' then written buf (encodeTimeToBuffer (to_number v) buf off)
      else if t = ''S5TIME'' then written buf (encodeS5TimeToBuffer (to_number v) buf off)
      else written buf (writeUInt16BE buf (to_number v) off))"

definition isArray :: "jsval \<Rightarrow> bool" where
  "isArray v = (case v of VArr _ \<Rightarrow> True | VRec _ \<Rightarrow> True | _ \<Rightarrow> False)"

text \<open>\<open>value[i]\<close>: \<open>undefined\<close> past the end; an element of an array of objects is an object.\<close>

definition element :: "jsval \<Rightarrow> nat \<Rightarrow> jsval" where
  "element v i =
     (case v of
        VArr vs \<Rightarrow> (if i < length vs then vs ! i else VUndef)
      | VRec r \<Rightarrow> (if i < length r then VRec [r ! i] else VUndef)
      | _ \<Rightarrow> VUndef)"

fun encode_array_loop ::
  "ieee754 \<Rightarrow> jsval \<Rightarrow> string \<Rightarrow> nat \<Rightarrow> nat \<Rightarrow> nat \<Rightarrow> buffer \<times> (nat \<times> nat) \<Rightarrow> buffer \<times> (nat \<times> nat)" where
  "encode_array_loop fp arr type typesize i 0 bst = bst"
| "encode_array_loop fp arr type typesize i (Suc k) bst =
     (let (buf, st) = bst;
          v = coerce_number type (element arr i);
          buf' = (if \<not> typeIsObject type
                  then encodeValueToBuffer fp buf v type (fst st) (int (snd st) - 1) typesize
                  else buf)
      in encode_array_loop fp arr type typesize (i + 1) k
           (buf', cursor_next_element (isBoolean type) typesize st))"

text \<open>One turn of the loop of \<open>DBStructure_encode\<close>.\<close>

definition encode_item :: "ieee754 \<Rightarrow> buffer \<times> (nat \<times> nat) \<Rightarrow> item \<Rightarrow> buffer \<times> (nat \<times> nat)" where
  "encode_item fp bst it =
     (let (buf, st0) = bst;
          type = toLocaleUpperCase (itype it);
          isBool = isBoolean type;
          typesize = item_typesize it type;
          st1 = cursor_enter isBool (isize it) st0
      in if size_gt_1 (isize it) \<and> isArray (ivalue it)
         then (let (buf', st') = encode_array_loop fp (ivalue it) type typesize 0
                                   (case isize it of Some n \<Rightarrow> n | None \<Rightarrow> 0)
                                   (buf, (roundUpToEven (fst st1), snd st1))
               in (buf', (roundUpToEven (fst st'), snd st')))
         else (let offset = (if typesize > 1 \<or> isString type then roundUpToEven (fst st1) else fst st1);
                   v = coerce_number type (ivalue it);
                   buf' = (if \<not> typeIsObject type
                           then encodeValueToBuffer fp buf v type offset (int (snd st1) - 1) typesize
                           else buf)
               in (buf', cursor_leave isBool typesize (offset, snd st1))))"

fun encode_loop :: "ieee754 \<Rightarrow> buffer \<times> (nat \<times> nat) \<Rightarrow> item list \<Rightarrow> buffer \<times> (nat \<times> nat)" where
  "encode_loop fp bst [] = bst"
| "encode_loop fp bst (it # its) = encode_loop fp (encode_item fp bst it) its"

text \<open>
  \<open>DBStructure_encode(db)\<close>: the layout is computed first (which annotates the items of
  \<open>db\<close>), the zero-filled buffer has the computed size, and the loop runs over the annotated
  items. The result is the buffer returned, and the datablock as the call leaves it.
\<close>

definition DBStructure_encode :: "ieee754 \<Rightarrow> DBStructure \<Rightarrow> buffer \<times> DBStructure" where
  "DBStructure_encode fp db =
     (let (buff_size, items') = DBStructure_calculateSize (db_items db) (db_offset db);
          buffer = replicate buff_size 0
      in (fst (encode_loop fp (buffer, (0, 0)) items'), db\<lparr>db_items := items'\<rparr>))"


section \<open>Request Scheduler\<close>

text \<open>
  \<open>S7DBConfig\<close>. The code reads every optional field through \<open>||\<close>, so an absent field
  and a falsy one are the same: 0, the empty string, \<open>False\<close>.
\<close>

record S7DBConfig =
  cfg_host :: string
  cfg_rack :: nat
  cfg_slot :: nat
  cfg_bufferSize :: nat
  cfg_staticSize :: nat
  cfg_debug :: bool

text \<open>
  What the program throws: the error code a transport callback reports, a string, an
  \<open>Error\<close> with its message, the object \<open>{error, request}\<close> of \<open>S7.read\<close>, and the array that
  a batch write throws, holding \<open>false\<close> (\<open>None\<close>) or the error of each entry.
\<close>

datatype error =
    ErrCode int
  | ErrText string
  | ErrError string
  | ErrRequest error DBStructure
  | ErrBatch "error option list"

text \<open>
  The transport collaborator (node-snap7's \<open>S7Client\<close>) is not part of the program. It is an
  oracle: what each call answers may depend on the call and on how many events came before
  it. \<open>None\<close> is success for \<open>ConnectTo\<close> and \<open>DBWrite\<close>. Offsets are in
  tenths, as in \<open>DBStructure\<close>.
\<close>

record transport =
  ConnectTo :: "nat \<Rightarrow> string \<Rightarrow> nat \<Rightarrow> nat \<Rightarrow> int option"
  DBRead :: "nat \<Rightarrow> nat \<Rightarrow> nat \<Rightarrow> nat \<Rightarrow> int + buffer"
  DBWrite :: "nat \<Rightarrow> nat \<Rightarrow> nat \<Rightarrow> nat \<Rightarrow> buffer \<Rightarrow> int option"
  ErrorText :: "int \<Rightarrow> string"

datatype event =
    CallConnectTo string nat nat
  | CallDBRead nat nat nat
  | CallDBWrite nat nat nat buffer
  | ScheduleDisconnect
  | Delay nat
  | CheckGate string

definition is_transport_call :: "event \<Rightarrow> bool" where
  "is_transport_call e =
     (case e of Delay _ \<Rightarrow> False | CheckGate _ \<Rightarrow> False | ScheduleDisconnect \<Rightarrow> False | _ \<Rightarrow> True)"

text \<open>
  The state the scheduler works on: the events so far, in order, and the registry
  \<open>sequences\<close> of \<open>SequentialRequests\<close> (the \<open>available\<close> flag of each host that has an entry).
  The events are the calls of the transport, the timer \<open>disconnect\<close> arms, the delays
  awaited, and each call of \<open>isAvailable\<close>.
\<close>

record world =
  trace :: "event list"
  sequences :: "string \<Rightarrow> bool option"

text \<open>
  \<open>await delay(ms)\<close> suspends the request: the timers of the registry and the other requests
  run meanwhile. What they do to the registry is the parameter \<open>env\<close>, asked with the number
  of events so far.
\<close>

definition delay :: "(nat \<Rightarrow> (string \<Rightarrow> bool option) \<Rightarrow> (string \<Rightarrow> bool option)) \<Rightarrow> nat \<Rightarrow> world \<Rightarrow> world" where
  "delay env ms w =
     w\<lparr>trace := trace w @ [Delay ms], sequences := env (length (trace w)) (sequences w)\<rparr>"

definition isAvailable :: "string \<Rightarrow> world \<Rightarrow> bool \<times> world" where
  "isAvailable x w =
     (let w' = w\<lparr>trace := trace w @ [CheckGate x]\<rparr> in
      case sequences w x of
        Some False \<Rightarrow> (False, w')
      | _ \<Rightarrow> (True, w'\<lparr>sequences := (sequences w)(x \<mapsto> False)\<rparr>))"

definition setAvailable :: "string \<Rightarrow> world \<Rightarrow> world" where
  "setAvailable x w = w\<lparr>sequences := (sequences w)(x \<mapsto> True)\<rparr>"

subsection \<open>Class DBStructure\<close>

text \<open>The constructor; its argument has the fields of the class, \<open>size\<close> being ignored.\<close>

definition new_DBStructure :: "DBStructure \<Rightarrow> DBStructure" where
  "new_DBStructure input =
     (let (total, items') = DBStructure_calculateSize (db_items input) (db_offset input)
      in \<lparr>db_name = (if db_name input \<noteq> [] then db_name input else ''Default''),
          db_db = db_db input,
          db_offset = db_offset input,
          db_items = items',
          db_size = total\<rparr>)"

subsection \<open>Class S7\<close>

text \<open>\<open>read_default\<close> and \<open>write_default\<close>: one call of the transport.\<close>

definition read_default :: "transport \<Rightarrow> nat \<Rightarrow> nat \<Rightarrow> nat \<Rightarrow> world \<Rightarrow> (int + buffer) \<times> world" where
  "read_default tr db off sz w =
     (DBRead tr (length (trace w)) db off sz, w\<lparr>trace := trace w @ [CallDBRead db off sz]\<rparr>)"

definition write_default :: "transport \<Rightarrow> nat \<Rightarrow> nat \<Rightarrow> nat \<Rightarrow> buffer \<Rightarrow> world \<Rightarrow> int option \<times> world" where
  "write_default tr db off sz buff w =
     (DBWrite tr (length (trace w)) db off sz buff, w\<lparr>trace := trace w @ [CallDBWrite db off sz buff]\<rparr>)"

fun read_with_retries :: "transport \<Rightarrow> nat \<Rightarrow> nat \<Rightarrow> nat \<Rightarrow> nat \<Rightarrow> world \<Rightarrow> (int + buffer) \<times> world" where
  "read_with_retries tr db off sz retries w =
     (case read_default tr db off sz w of
        (Inr output, w') \<Rightarrow> (Inr output, w')
      | (Inl e, w') \<Rightarrow>
          (if retries > 1 then read_with_retries tr db off sz (retries - 1) w'
           else (Inl e, w')))"

declare read_with_retries.simps [simp del]

text \<open>A number with one fractional digit, as a template string prints it.\<close>

definition show_tenths :: "nat \<Rightarrow> string" where
  "show_tenths n = show_nat (n div 10) @ (if n mod 10 = 0 then [] else ''.'' @ show_nat (n mod 10))"

definition hex_byte :: "8 word \<Rightarrow> string" where
  "hex_byte b = [hex_char (unat b div 16), hex_char (unat b mod 16)]"

definition write_info :: "bool \<Rightarrow> nat \<Rightarrow> nat \<Rightarrow> nat \<Rightarrow> buffer \<Rightarrow> string" where
  "write_info debug db off sz buff =
     ''DB: '' @ show_nat db @ '' | offset: '' @ show_tenths off @ '' | size: '' @ show_nat sz @
     '' | buff: 0x'' @ (if debug then concat (map hex_byte buff) else show_nat (length buff))"

text \<open>
  \<open>write_with_retries\<close>: one call of \<open>write_default\<close> in a \<open>try\<close>; the \<open>catch\<close> throws an
  \<open>Error\<close> with the message and the error code (\<open>JSON.stringify(e)\<close>).
\<close>

definition write_with_retries :: "transport \<Rightarrow> bool \<Rightarrow> nat \<Rightarrow> nat \<Rightarrow> nat \<Rightarrow> buffer \<Rightarrow> world \<Rightarrow> (error + unit) \<times> world" where
  "write_with_retries tr debug db off sz buff w =
     (case write_default tr db off sz buff w of
        (None, w') \<Rightarrow> (Inr (), w')
      | (Some e, w') \<Rightarrow>
          (Inl (ErrError (''S7 Write failed: '' @ write_info debug db off sz buff @ '': '' @ show_int e)), w'))"

text \<open>
  \<open>connect\<close> on a client that is not connected. The message of the rejection is
  \<open>err:ErrorText(err)\<close>.
\<close>

definition connect :: "transport \<Rightarrow> S7DBConfig \<Rightarrow> world \<Rightarrow> (error + unit) \<times> world" where
  "connect tr cfg w =
     (let host = (if cfg_host cfg \<noteq> [] then cfg_host cfg else ''localhost'');
          slot = (if cfg_slot cfg \<noteq> 0 then cfg_slot cfg else 1);
          w' = w\<lparr>trace := trace w @ [CallConnectTo host (cfg_rack cfg) slot]\<rparr>
      in case ConnectTo tr (length (trace w)) host (cfg_rack cfg) slot of
           None \<Rightarrow> (Inr (), w')
         | Some err \<Rightarrow> (Inl (ErrText (show_int err @ '':'' @ ErrorText tr err)), w'))"

text \<open>\<open>disconnect\<close> only arms a timer of 500 ms that will call \<open>Disconnect\<close>.\<close>

definition disconnect :: "world \<Rightarrow> world" where
  "disconnect w = w\<lparr>trace := trace w @ [ScheduleDisconnect]\<rparr>"

text \<open>
  The chunks of a read larger than \<open>bufferSize\<close>, \<open>is\<close> being the indices still to read: the
  first chunk that fails after its retries ends the loop with its error.
\<close>

fun read_chunks :: "transport \<Rightarrow> nat \<Rightarrow> nat \<Rightarrow> nat \<Rightarrow> nat \<Rightarrow> nat \<Rightarrow> nat list \<Rightarrow> buffer list \<Rightarrow> world \<Rightarrow> (int + buffer list) \<times> world" where
  "read_chunks tr db off sz bufferSize batchCount [] buff_array w = (Inr buff_array, w)"
| "read_chunks tr db off sz bufferSize batchCount (i # is) buff_array w =
     (let s = (if i < batchCount - 1 then int bufferSize else int sz - int (i * bufferSize)) in
      if s > 0
      then (case read_with_retries tr db (off + 10 * (i * bufferSize)) (nat s) 3 w of
              (Inl e, w') \<Rightarrow> (Inl e, w')
            | (Inr buff, w') \<Rightarrow> read_chunks tr db off sz bufferSize batchCount is (buff_array @ [buff]) w')
      else read_chunks tr db off sz bufferSize batchCount is buff_array w)"

definition read_connection_options :: "string \<Rightarrow> nat \<Rightarrow> nat \<Rightarrow> nat \<Rightarrow> string" where
  "read_connection_options host db off sz =
     ''S7 Read IP: '' @ host @ '' | DB: '' @ show_nat db @ '' | offset: '' @ show_tenths off @
     '' | size: '' @ show_nat sz"

text \<open>
  The method \<open>read\<close> of a client that is not connected yet. \<open>Math.ceil(size / bufferSize)\<close> is
  \<open>(size + bufferSize - 1) div bufferSize\<close>.
\<close>

definition S7_read :: "ieee754 \<Rightarrow> transport \<Rightarrow> S7DBConfig \<Rightarrow> DBStructure \<Rightarrow> world \<Rightarrow> (error + (string \<times> string \<times> jsval) list) \<times> world" where
  "S7_read fp tr cfg input_db w =
     (let datablock0 = new_DBStructure input_db;
          datablock = (if cfg_staticSize cfg \<noteq> 0 then datablock0\<lparr>db_size := cfg_staticSize cfg\<rparr> else datablock0);
          host = (if cfg_host cfg \<noteq> [] then cfg_host cfg else ''localhost'');
          db = db_db datablock; off = db_offset datablock; sz = db_size datablock
      in if sz > 0
         then (case connect tr cfg w of
                 (Inl e, w1) \<Rightarrow> (Inl e, w1)
               | (Inr _, w1) \<Rightarrow>
                  (let connection_options = read_connection_options host db off sz;
                       bufferSize = cfg_bufferSize cfg;
                       (r, w2) =
                          (if bufferSize > 0 \<and> sz > bufferSize
                           then (let batchCount = (sz + bufferSize - 1) div bufferSize in
                                 case read_chunks tr db off sz bufferSize batchCount [0..<batchCount] [] w1 of
                                   (Inl e, w') \<Rightarrow> (Inl e, w')
                                 | (Inr buff_array, w') \<Rightarrow> (Inr (concat buff_array), w'))
                           else read_with_retries tr db off sz 3 w1)
                   in case r of
                        Inl err \<Rightarrow> (Inl (ErrText (connection_options @ [CHR 0x0A] @ ''Error['' @ show_int err @ '']: '' @ ErrorText tr err)), w2)
                      | Inr buffer \<Rightarrow> (Inr (DBStructure_parse fp datablock buffer), w2)))
         else (Inr [], w))"

text \<open>
  The static \<open>S7.read\<close>. The registry of clients is emptied for the host as soon as the
  client is taken from it, so every call works on a new client. \<open>client.connect()\<close> is not
  awaited: its \<open>ConnectTo\<close> is on its way when \<open>client.read\<close> finds the client not connected
  and connects again. What the first call answers reaches no handler of the program.
\<close>

definition S7_read_static :: "ieee754 \<Rightarrow> transport \<Rightarrow> S7DBConfig \<Rightarrow> DBStructure \<Rightarrow> world \<Rightarrow> (error + (string \<times> string \<times> jsval) list) \<times> world" where
  "S7_read_static fp tr cfg input_db w =
     (let db = new_DBStructure input_db;
          w1 = snd (connect tr cfg w)
      in case S7_read fp tr cfg db w1 of
           (Inr data, w2) \<Rightarrow> (Inr data, disconnect w2)
         | (Inl e, w2) \<Rightarrow> (Inl (ErrRequest e db), disconnect w2))"

definition write_connection_options :: "string \<Rightarrow> nat \<Rightarrow> nat \<Rightarrow> nat \<Rightarrow> string" where
  "write_connection_options host db off sz =
     ''S7 Write IP: '' @ host @ '' | DB: '' @ show_nat db @ '' | offset: '' @ show_tenths off @
     '' | size: '' @ show_nat sz"

definition S7_write :: "ieee754 \<Rightarrow> transport \<Rightarrow> S7DBConfig \<Rightarrow> DBStructure \<Rightarrow> world \<Rightarrow> (error + unit) \<times> world" where
  "S7_write fp tr cfg input_db w =
     (let datablock0 = new_DBStructure input_db;
          datablock = (if cfg_staticSize cfg \<noteq> 0 then datablock0\<lparr>db_size := cfg_staticSize cfg\<rparr> else datablock0);
          db = db_db datablock; off = db_offset datablock; sz = db_size datablock
      in if sz > 0
         then (case connect tr cfg w of
                 (Inl e, w1) \<Rightarrow> (Inl e, w1)
               | (Inr _, w1) \<Rightarrow>
                  (let buffer = fst (DBStructure_encode fp datablock)
                   in write_with_retries tr (cfg_debug cfg) db off sz buffer w1))
         else (Inr (), w))"

text \<open>The static \<open>S7.write\<close> has no \<open>try\<close>: an error leaves it before \<open>disconnect\<close>.\<close>

definition S7_write_static :: "ieee754 \<Rightarrow> transport \<Rightarrow> S7DBConfig \<Rightarrow> DBStructure \<Rightarrow> world \<Rightarrow> (error + unit) \<times> world" where
  "S7_write_static fp tr cfg input_db w =
     (let db = new_DBStructure input_db;
          w1 = snd (connect tr cfg w)
      in case S7_write fp tr cfg db w1 of
           (Inr u, w2) \<Rightarrow> (Inr u, disconnect w2)
         | (Inl e, w2) \<Rightarrow> (Inl e, w2))"

subsection \<open>getS7Data and setS7Data\<close>

text \<open>
  The parameters every function below passes on: the IEEE-754 conversions, the transport,
  and what the rest of the program does to the registry while a request is suspended.
\<close>

record scheduler =
  sch_fp :: ieee754
  sch_tr :: transport
  sch_env :: "nat \<Rightarrow> (string \<Rightarrow> bool option) \<Rightarrow> (string \<Rightarrow> bool option)"

text \<open>
  The loop of a single-target request from attempt \<open>i\<close> on; \<open>request\<close> is the call of
  \<open>S7.read\<close> or \<open>S7.write\<close> made once the gate is taken.
\<close>

function attempts :: "scheduler \<Rightarrow> string \<Rightarrow> (world \<Rightarrow> (error + 'a) \<times> world) \<Rightarrow> nat \<Rightarrow> world \<Rightarrow> (error + 'a) \<times> world" where
  "attempts sch host request i w =
     (if i < 20
      then (let w1 = (if i < 19 then delay (sch_env sch) (50 * i) w else w);
                (available, w2) = isAvailable host w1
            in if available
               then (case request w2 of
                       (Inr result, w3) \<Rightarrow> (Inr result, setAvailable host w3)
                     | (Inl e, w3) \<Rightarrow> (Inl e, setAvailable host w3))
               else attempts sch host request (i + 1) w2)
      else (Inl (ErrText ''113: TCP : Unreachable peer''), w))"
  by pat_completeness auto
termination
  by (relation "measure (\<lambda>(sch, host, request, i, w). 20 - i)") auto

declare attempts.simps [simp del]

definition getS7Data_single :: "scheduler \<Rightarrow> S7DBConfig \<Rightarrow> DBStructure \<Rightarrow> world \<Rightarrow> (error + (string \<times> string \<times> jsval) list) \<times> world" where
  "getS7Data_single sch config db w =
     attempts sch (cfg_host config) (S7_read_static (sch_fp sch) (sch_tr sch) config db) 0 w"

text \<open>
  The array branch of \<open>getS7Data\<close>: the entries of each result are spread into \<open>output\<close>, a
  caught error is pushed as one element, and 5 ms pass between two entries.
\<close>

fun getS7Data_batch :: "scheduler \<Rightarrow> S7DBConfig \<Rightarrow> DBStructure list \<Rightarrow> (error + string \<times> string \<times> jsval) list \<Rightarrow> world \<Rightarrow> (error + string \<times> string \<times> jsval) list \<times> world" where
  "getS7Data_batch sch config [] output w = (output, w)"
| "getS7Data_batch sch config (db # dbs) output w =
     (let (r, w1) = getS7Data_single sch config db w;
          output1 = (case r of Inr result \<Rightarrow> output @ map Inr result | Inl e \<Rightarrow> output @ [Inl e]);
          w2 = (if dbs \<noteq> [] then delay (sch_env sch) 5 w1 else w1)
      in getS7Data_batch sch config dbs output1 w2)"

text \<open>\<open>S7DBStructure | S7DBStructure[]\<close>\<close>

datatype datablocks = One DBStructure | Many "DBStructure list"

definition getS7Data :: "scheduler \<Rightarrow> S7DBConfig \<Rightarrow> datablocks \<Rightarrow> world \<Rightarrow> (error + (error + string \<times> string \<times> jsval) list) \<times> world" where
  "getS7Data sch config db w =
     (case db of
        Many dbs \<Rightarrow> (let (output, w') = getS7Data_batch sch config dbs [] w in (Inr output, w'))
      | One d \<Rightarrow> (case getS7Data_single sch config d w of
                    (Inr result, w') \<Rightarrow> (Inr (map Inr result), w')
                  | (Inl e, w') \<Rightarrow> (Inl e, w')))"

definition setS7Data_single :: "scheduler \<Rightarrow> S7DBConfig \<Rightarrow> DBStructure \<Rightarrow> world \<Rightarrow> (error + unit) \<times> world" where
  "setS7Data_single sch config db w =
     attempts sch (cfg_host config) (S7_write_static (sch_fp sch) (sch_tr sch) config db) 0 w"

text \<open>The array branch of \<open>setS7Data\<close>: \<open>false\<close> (\<open>None\<close>) or the caught error for each entry.\<close>

fun setS7Data_batch :: "scheduler \<Rightarrow> S7DBConfig \<Rightarrow> DBStructure list \<Rightarrow> error option list \<Rightarrow> world \<Rightarrow> error option list \<times> world" where
  "setS7Data_batch sch config [] output w = (output, w)"
| "setS7Data_batch sch config (db # dbs) output w =
     (let (r, w1) = setS7Data_single sch config db w;
          output1 = (case r of Inr _ \<Rightarrow> output @ [None] | Inl e \<Rightarrow> output @ [Some e]);
          w2 = (if dbs \<noteq> [] then delay (sch_env sch) 5 w1 else w1)
      in setS7Data_batch sch config dbs output1 w2)"

definition setS7Data :: "scheduler \<Rightarrow> S7DBConfig \<Rightarrow> datablocks \<Rightarrow> world \<Rightarrow> (error + unit) \<times> world" where
  "setS7Data sch config db w =
     (case db of
        Many dbs \<Rightarrow> (let (output, w') = setS7Data_batch sch config dbs [] w
                     in if list_all (\<lambda>x. x = None) output then (Inr (), w')
                        else (Inl (ErrBatch output), w'))
      | One d \<Rightarrow> setS7Data_single sch config d w)"



section \<open>Variable Router\<close>

text \<open>
  An argument of \<open>read\<close> or \<open>write\<close>: something that is not an object, an object with its
  fields \<open>name\<close> and \<open>value\<close> (\<open>VUndef\<close> when absent), or an array.
\<close>

datatype variable = NotObject | Object jsval jsval | Array "variable list"


text \<open>
  \<open>PLC_handler(PLC)\<close> runs the Layout Calculator over the items of every datablock and keeps
  \<open>config\<close> and the datablocks, items annotated, for its handlers.
\<close>

record PLC =
  plc_config :: S7DBConfig
  plc_datablocks :: "DBStructure list"

definition PLC_handler :: "PLC \<Rightarrow> PLC" where
  "PLC_handler plc =
     plc\<lparr>plc_datablocks :=
           map (\<lambda>d. d\<lparr>db_items := snd (DBStructure_calculateSize (db_items d) (db_offset d))\<rparr>)
             (plc_datablocks plc)\<rparr>"














section \<open>What the claims speak of\<close>

text \<open>The type, array count and string capacity of an item as the Layout Calculator reads them.\<close>

definition item_type :: "item \<Rightarrow> string" where
  "item_type it = (if itype it \<noteq> [] then toLocaleUpperCase (itype it) else ''UINT'')"

definition item_count :: "item \<Rightarrow> nat" where
  "item_count it = (case isize it of Some n \<Rightarrow> (if n > 0 then n else 1) | None \<Rightarrow> 1)"

definition item_capacity :: "item \<Rightarrow> nat" where
  "item_capacity it = (case istrlen it of Some n \<Rightarrow> (if n = 0 then 254 else n) | None \<Rightarrow> 254)"

text \<open>
  The minimal stride in the words of the specification: the width of the item's type, as
  the table \<open>typeList\<close> gives it, times the array count.
\<close>

definition minimal_stride :: "item \<Rightarrow> nat" where
  "minimal_stride it = variableTypeSize (item_type it) * item_count it"

text \<open>
  The width an item occupies: a STRING its capacity and two header bytes, rounded up to
  even; every other type the width of the table.
\<close>

definition item_width :: "item \<Rightarrow> nat" where
  "item_width it = (if isString (item_type it) then roundUpToEven (item_capacity it + 2)
                    else variableTypeSize (item_type it))"

text \<open>The stride in bits: one bit for each boolean, eight for each byte of any other type.\<close>

definition stride_bits :: "item \<Rightarrow> nat" where
  "stride_bits it = (if isBoolean (item_type it) then item_count it
                     else 8 * (item_width it * item_count it))"

text \<open>
  The events of a request that finds the gate of its host taken at each of its 20 checks,
  as the specification words them (a wait of 50 ms times the attempt index before every
  check), and as the loop of \<open>getS7Data\<close> and \<open>setS7Data\<close> produces them.
\<close>

definition claimed_busy_trace :: "string \<Rightarrow> event list" where
  "claimed_busy_trace host = concat (map (\<lambda>j. [Delay (50 * j), CheckGate host]) [0..<20])"

definition busy_trace :: "string \<Rightarrow> event list" where
  "busy_trace host =
     concat (map (\<lambda>j. (if j < 19 then [Delay (50 * j)] else []) @ [CheckGate host]) [0..<20])"

text \<open>
  The outcome of each entry of a batch, in order: every entry is run in the state its
  predecessor left, 5 ms after it.
\<close>

fun sequential_results ::
  "(nat \<Rightarrow> (string \<Rightarrow> bool option) \<Rightarrow> (string \<Rightarrow> bool option)) \<Rightarrow> ('d \<Rightarrow> world \<Rightarrow> 'r \<times> world) \<Rightarrow> 'd list \<Rightarrow> world \<Rightarrow> 'r list" where
  "sequential_results env f [] w = []"
| "sequential_results env f (d # ds) w =
     (let (r, w1) = f d w;
          w2 = (if ds \<noteq> [] then delay env 5 w1 else w1)
      in r # sequential_results env f ds w2)"

text \<open>What an entry contributes to the result of a batch read, and of a batch write.\<close>

definition spread :: "error + (string \<times> string \<times> jsval) list \<Rightarrow> (error + string \<times> string \<times> jsval) list" where
  "spread r = (case r of Inr result \<Rightarrow> map Inr result | Inl e \<Rightarrow> [Inl e])"

definition carried :: "error + unit \<Rightarrow> error option" where
  "carried r = (case r of Inr _ \<Rightarrow> None | Inl e \<Rightarrow> Some e)"










subsection \<open>Notions of the proofs\<close>






section \<open>Layout Calculator: size\<close>

lemma roundUpToEven_ge: "n \<le> roundUpToEven n"
  by (simp add: roundUpToEven_def)

lemma even_roundUpToEven: "even (roundUpToEven n)"
  unfolding roundUpToEven_def by presburger

lemma not_gt_one: "(\<not> Suc 0 < n) = (n = 0 \<or> n = Suc 0)"
  by arith

lemma annotate_fields:
  "iname (calculateSize_annotate it) = iname it"
  "ivalue (calculateSize_annotate it) = ivalue it"
  "ioffset (calculateSize_annotate it) = ioffset it"
  "itype (calculateSize_annotate it) = item_type it"
  "isize (calculateSize_annotate it) = Some (item_count it)"
  "istrlen (calculateSize_annotate it) =
     (if isString (item_type it) then Some (item_capacity it) else istrlen it)"
  by (simp_all add: calculateSize_annotate_def Let_def item_type_def item_count_def
      item_capacity_def)

lemma typesize_annotate:
  "calculateSize_typesize (calculateSize_annotate it) = item_width it"
  by (simp add: calculateSize_typesize_def annotate_fields item_width_def roundUpToEven_def)

lemma calculateSize_step_eq:
  "calculateSize_step s st it =
     (let st1 = calculateSize_align (isBoolean (item_type it)) (isString (item_type it)) (item_width it) st
      in ((calculateSize_annotate it)\<lparr>ioffset := Some (s + 10 * fst st1 + snd st1)\<rparr>,
          calculateSize_advance (isBoolean (item_type it)) (item_width it) (item_count it) st1))"
  by (simp add: calculateSize_step_def Let_def annotate_fields typesize_annotate)

lemma calculateSize_align_bits:
  "calculateSize_align isBool isStr w (t, b) = (t1, b1) \<Longrightarrow> b < 8 \<Longrightarrow>
   b1 < 8 \<and> 8 * t + b \<le> 8 * t1 + b1"
  by (auto simp: calculateSize_align_def roundUpToEven_def split: if_splits)

lemma calculateSize_advance_bits:
  "calculateSize_advance isBool w n (t1, b1) = (t', b') \<Longrightarrow> b1 < 8 \<Longrightarrow> 0 < n \<Longrightarrow>
   b' < 8 \<and> 8 * t1 + b1 + (if isBool then n else 8 * (w * n)) \<le> 8 * t' + b'"
  by (auto simp: calculateSize_advance_def Let_def roundUpToEven_def not_gt_one split: if_splits)

lemma item_count_pos: "0 < item_count it"
  by (simp add: item_count_def split: option.splits)

lemma calculateSize_step_bits:
  assumes "calculateSize_step s (t, b) it = (it', (t', b'))" and "b < 8"
  shows "b' < 8 \<and> 8 * t + b + stride_bits it \<le> 8 * t' + b'"
proof -
  obtain t1 b1 where al:
    "calculateSize_align (isBoolean (item_type it)) (isString (item_type it)) (item_width it) (t, b) = (t1, b1)"
    by (metis surj_pair)
  with assms(1) have ad:
    "calculateSize_advance (isBoolean (item_type it)) (item_width it) (item_count it) (t1, b1) = (t', b')"
    by (simp add: calculateSize_step_eq)
  from calculateSize_align_bits[OF al assms(2)] have 1: "b1 < 8" "8 * t + b \<le> 8 * t1 + b1"
    by auto
  from calculateSize_advance_bits[OF ad 1(1) item_count_pos]
  have "b' < 8" "8 * t1 + b1 + stride_bits it \<le> 8 * t' + b'"
    by (auto simp: stride_bits_def)
  with 1 show ?thesis by simp
qed

lemma calculateSize_loop_bits:
  "calculateSize_loop s (t, b) its = (its', (t', b')) \<Longrightarrow> b < 8 \<Longrightarrow>
   b' < 8 \<and> 8 * t + b + sum_list (map stride_bits its) \<le> 8 * t' + b'"
proof (induction its arbitrary: t b its')
  case Nil
  then show ?case by simp
next
  case (Cons it its)
  obtain it1 t1 b1 where st: "calculateSize_step s (t, b) it = (it1, (t1, b1))"
    by (metis prod_cases3)
  obtain its2 where lp: "calculateSize_loop s (t1, b1) its = (its2, (t', b'))"
    using Cons.prems(1) st by (auto split: prod.splits)
  from calculateSize_step_bits[OF st Cons.prems(2)]
  have 1: "b1 < 8" "8 * t + b + stride_bits it \<le> 8 * t1 + b1" by auto
  from Cons.IH[OF lp 1(1)]
  have "b' < 8" "8 * t1 + b1 + sum_list (map stride_bits its) \<le> 8 * t' + b'" by auto
  with 1 show ?case by simp
qed

text \<open>
  C2, as stated: the total size is at least the sum of type width times array count. It
  fails where booleans are packed: an array of 16 BOOL has the sum 16 and the total size 2.
\<close>

theorem C2_counterexample:
  "\<not> sum_list (map minimal_stride
         [\<lparr>iname = ''flags'', itype = ''BOOL'', istrlen = None, isize = Some 16,
           ivalue = VUndef, ioffset = None\<rparr>])
     \<le> fst (DBStructure_calculateSize
         [\<lparr>iname = ''flags'', itype = ''BOOL'', istrlen = None, isize = Some 16,
           ivalue = VUndef, ioffset = None\<rparr>] 0)"
  by code_simp

text \<open>
  C2, amended: for every item sequence and starting offset the total size is even, and its
  bits cover the sum of the items' strides, where a boolean counts one bit for each element
  and every other item eight bits for each byte of its width times its array count (a
  STRING being as wide as its capacity plus two, rounded up to even).
\<close>

theorem C2_calculateSize_even_and_covers:
  "even (fst (DBStructure_calculateSize its s)) \<and>
   sum_list (map stride_bits its) \<le> 8 * fst (DBStructure_calculateSize its s)"
proof -
  obtain its' t b where lp: "calculateSize_loop s (0, 0) its = (its', (t, b))"
    by (metis prod_cases3)
  from calculateSize_loop_bits[OF lp]
  have b: "b < 8" "sum_list (map stride_bits its) \<le> 8 * t + b" by auto
  have f: "fst (DBStructure_calculateSize its s) = roundUpToEven (if b > 0 then t + 1 else t)"
    by (simp add: DBStructure_calculateSize_def lp)
  have "8 * t + b \<le> 8 * roundUpToEven (if b > 0 then t + 1 else t)"
    using b(1) roundUpToEven_ge[of "if b > 0 then t + 1 else t"] by (auto split: if_splits)
  with b f show ?thesis by (simp add: even_roundUpToEven)
qed

theorem C2_calculateSize_even_and_covers_witness:
  "even (fst (DBStructure_calculateSize
       [\<lparr>iname = ''flags'', itype = ''BOOL'', istrlen = None, isize = Some 16,
         ivalue = VUndef, ioffset = None\<rparr>,
        \<lparr>iname = ''n'', itype = ''int'', istrlen = None, isize = None,
         ivalue = VUndef, ioffset = None\<rparr>] 0)) \<and>
   sum_list (map stride_bits
       [\<lparr>iname = ''flags'', itype = ''BOOL'', istrlen = None, isize = Some 16,
         ivalue = VUndef, ioffset = None\<rparr>,
        \<lparr>iname = ''n'', itype = ''int'', istrlen = None, isize = None,
         ivalue = VUndef, ioffset = None\<rparr>]) = 32 \<and>
   fst (DBStructure_calculateSize
       [\<lparr>iname = ''flags'', itype = ''BOOL'', istrlen = None, isize = Some 16,
         ivalue = VUndef, ioffset = None\<rparr>,
        \<lparr>iname = ''n'', itype = ''int'', istrlen = None, isize = None,
         ivalue = VUndef, ioffset = None\<rparr>] 0) = 4"
proof -
  have 1: "sum_list (map stride_bits
       [\<lparr>iname = ''flags'', itype = ''BOOL'', istrlen = None, isize = Some 16,
         ivalue = VUndef, ioffset = None\<rparr>,
        \<lparr>iname = ''n'', itype = ''int'', istrlen = None, isize = None,
         ivalue = VUndef, ioffset = None\<rparr>]) = 32"
    by code_simp
  have 2: "fst (DBStructure_calculateSize
       [\<lparr>iname = ''flags'', itype = ''BOOL'', istrlen = None, isize = Some 16,
         ivalue = VUndef, ioffset = None\<rparr>,
        \<lparr>iname = ''n'', itype = ''int'', istrlen = None, isize = None,
         ivalue = VUndef, ioffset = None\<rparr>] 0) = 4"
    by code_simp
  from C2_calculateSize_even_and_covers[of
       "[\<lparr>iname = ''flags'', itype = ''BOOL'', istrlen = None, isize = Some 16,
         ivalue = VUndef, ioffset = None\<rparr>,
        \<lparr>iname = ''n'', itype = ''int'', istrlen = None, isize = None,
         ivalue = VUndef, ioffset = None\<rparr>]" 0] 1 2
  show ?thesis by simp
qed

section \<open>Layout Calculator: what it writes\<close>







section \<open>S5TIME\<close>

text \<open>
  C3, as stated: encoding 1234 and decoding the two bytes gives 1200 or 1300. It gives
  neither.
\<close>

theorem C3_counterexample:
  "parseS5TimeFromBuffer (written [0, 0] (encodeS5TimeToBuffer (Some 1234) [0, 0] 0)) 0
     \<notin> {Some (VNum 1200), Some (VNum 1300)}"
  by code_simp

text \<open>
  C3, amended: encoding the S5TIME value 1234 writes the two bytes 0x01 0x23 (timebase 10 ms,
  digits 123), and decoding them yields 1230, which is within one timebase unit (10 ms) of
  1234.
\<close>

theorem C3_S5TIME_1234:
  "encodeS5TimeToBuffer (Some 1234) [0, 0] 0 = Some [0x01, 0x23] \<and>
   parseS5TimeFromBuffer [0x01, 0x23] 0 = Some (VNum 1230) \<and>
   \<bar>1234 - 1230\<bar> < (10::int)"
  by code_simp

section \<open>Request Scheduler: retries\<close>

lemma write_with_retries_one_call:

  "trace (snd (write_with_retries tr debug db off sz buff w)) = trace w @ [CallDBWrite db off sz buff]"
  by (simp add: write_with_retries_def write_default_def split: option.splits)

lemma read_with_retries_calls:
  "\<exists>k. 1 \<le> k \<and> k \<le> max 1 retries \<and>
     trace (snd (read_with_retries tr db off sz retries w)) = trace w @ replicate k (CallDBRead db off sz)"
proof (induction retries arbitrary: w rule: less_induct)
  case (less retries)
  let ?w' = "w\<lparr>trace := trace w @ [CallDBRead db off sz]\<rparr>"
  show ?case
  proof (cases "DBRead tr (length (trace w)) db off sz")
    case (Inr out)
    then have "trace (snd (read_with_retries tr db off sz retries w)) = trace w @ replicate 1 (CallDBRead db off sz)"
      by (subst read_with_retries.simps) (simp add: read_default_def)
    then show ?thesis by (intro exI[of _ 1]) simp
  next
    case (Inl e)
    show ?thesis
    proof (cases "retries > 1")
      case False
      with Inl have "trace (snd (read_with_retries tr db off sz retries w)) = trace w @ replicate 1 (CallDBRead db off sz)"
        by (subst read_with_retries.simps) (simp add: read_default_def)
      then show ?thesis by (intro exI[of _ 1]) simp
    next
      case True
      with Inl have eq: "read_with_retries tr db off sz retries w = read_with_retries tr db off sz (retries - 1) ?w'"
        by (subst read_with_retries.simps) (simp add: read_default_def)
      from True have "retries - 1 < retries" by simp
      from less.IH[OF this, of ?w'] obtain k where k: "1 \<le> k" "k \<le> max 1 (retries - 1)"
        "trace (snd (read_with_retries tr db off sz (retries - 1) ?w')) = trace ?w' @ replicate k (CallDBRead db off sz)"
        by blast
      have "trace ?w' @ replicate k (CallDBRead db off sz) = trace w @ replicate (Suc k) (CallDBRead db off sz)"
        by simp
      with k eq True show ?thesis by (intro exI[of _ "Suc k"]) (simp del: replicate.simps)
    qed
  qed
qed

text \<open>
  C5: every raw transfer, read and write alike, is tried again on failure. A read is: with
  a transport whose first call fails and whose later calls succeed, \<open>read_with_retries\<close>
  calls it twice and returns the bytes. A write is not: on the same transport
  \<open>write_with_retries\<close> calls once and throws.
\<close>

theorem C5_write_single_attempt:
  "fst (write_with_retries
      \<lparr>ConnectTo = (\<lambda>n h r s. None),
        DBRead = (\<lambda>n db off sz. if n = 0 then Inl 5 else Inr (replicate sz 0)),
        DBWrite = (\<lambda>n db off sz b. if n = 0 then Some 5 else None),
        ErrorText = (\<lambda>e. [])\<rparr> False 1 0 2 [0, 0] \<lparr>trace = [], sequences = (\<lambda>h. None)\<rparr>)
     = Inl (ErrError ''S7 Write failed: DB: 1 | offset: 0 | size: 2 | buff: 0x2: 5'') \<and>
   trace (snd (write_with_retries
      \<lparr>ConnectTo = (\<lambda>n h r s. None),
        DBRead = (\<lambda>n db off sz. if n = 0 then Inl 5 else Inr (replicate sz 0)),
        DBWrite = (\<lambda>n db off sz b. if n = 0 then Some 5 else None),
        ErrorText = (\<lambda>e. [])\<rparr> False 1 0 2 [0, 0] \<lparr>trace = [], sequences = (\<lambda>h. None)\<rparr>))
     = [CallDBWrite 1 0 2 [0, 0]] \<and>
   fst (read_with_retries
      \<lparr>ConnectTo = (\<lambda>n h r s. None),
        DBRead = (\<lambda>n db off sz. if n = 0 then Inl 5 else Inr (replicate sz 0)),
        DBWrite = (\<lambda>n db off sz b. if n = 0 then Some 5 else None),
        ErrorText = (\<lambda>e. [])\<rparr> 1 0 2 3 \<lparr>trace = [], sequences = (\<lambda>h. None)\<rparr>)
     = Inr [0, 0] \<and>
   trace (snd (read_with_retries
      \<lparr>ConnectTo = (\<lambda>n h r s. None),
        DBRead = (\<lambda>n db off sz. if n = 0 then Inl 5 else Inr (replicate sz 0)),
        DBWrite = (\<lambda>n db off sz b. if n = 0 then Some 5 else None),
        ErrorText = (\<lambda>e. [])\<rparr> 1 0 2 3 \<lparr>trace = [], sequences = (\<lambda>h. None)\<rparr>))
     = [CallDBRead 1 0 2, CallDBRead 1 0 2]"
  by code_simp

section \<open>Request Scheduler: admission gate\<close>

lemma attempts_busy:
  assumes env: "\<And>n g. sch_env sch n g host = Some False"
  shows "sequences w host = Some False \<Longrightarrow> i \<le> 20 \<Longrightarrow>
    fst (attempts sch host request i w) = Inl (ErrText ''113: TCP : Unreachable peer'') \<and>
    trace (snd (attempts sch host request i w)) =
      trace w @ concat (map (\<lambda>j. (if j < 19 then [Delay (50 * j)] else []) @ [CheckGate host]) [i..<20])"
proof (induction "20 - i" arbitrary: i w)
  case 0
  then have "i = 20" by simp
  then show ?case by (simp add: attempts.simps)
next
  case (Suc k)
  then have i: "i < 20" by simp
  define w1 where "w1 = (if i < 19 then delay (sch_env sch) (50 * i) w else w)"
  have s1: "sequences w1 host = Some False"
    using Suc.prems(1) env by (simp add: w1_def delay_def)
  define w2 where "w2 = w1\<lparr>trace := trace w1 @ [CheckGate host]\<rparr>"
  have av: "isAvailable host w1 = (False, w2)"
    using s1 by (simp add: isAvailable_def w2_def Let_def)
  have step: "attempts sch host request i w = attempts sch host request (i + 1) w2"
    using i av by (subst attempts.simps) (simp add: w1_def Let_def)
  have s2: "sequences w2 host = Some False" using s1 by (simp add: w2_def)
  have k: "k = 20 - (i + 1)" using Suc.hyps(2) by simp
  have le: "i + 1 \<le> 20" using i by simp
  have tw2: "trace w2 = trace w @ (if i < 19 then [Delay (50 * i)] else []) @ [CheckGate host]"
    by (simp add: w2_def w1_def delay_def)
  have up: "[i..<20] = i # [i + 1..<20]" using i by (simp add: upt_conv_Cons)
  from Suc.hyps(1)[OF k s2 le] step tw2 up show ?case by simp
qed

text \<open>
  C6, as stated: a wait of 50 ms times the attempt index comes before each of the 20
  checks. The last check (index 19) follows the one before it with no wait.
\<close>

theorem C6_counterexample:
  "trace (snd (getS7Data_single
      \<lparr>sch_fp = \<lparr>float_bytes = (\<lambda>v. []), bytes_float = (\<lambda>bs. VNaN), double_bytes = (\<lambda>v. []), bytes_double = (\<lambda>bs. VNaN)\<rparr>,
        sch_tr = \<lparr>ConnectTo = (\<lambda>n h r s. None), DBRead = (\<lambda>n db off sz. Inr (replicate sz 0)),
                  DBWrite = (\<lambda>n db off sz b. None), ErrorText = (\<lambda>e. [])\<rparr>,
        sch_env = (\<lambda>n g h. Some False)\<rparr>
      \<lparr>cfg_host = ''plc'', cfg_rack = 0, cfg_slot = 1, cfg_bufferSize = 0, cfg_staticSize = 0, cfg_debug = False\<rparr>
      \<lparr>db_name = ''A'', db_db = 1, db_offset = 0,
        db_items = [\<lparr>iname = ''n'', itype = ''INT'', istrlen = None, isize = None, ivalue = VUndef, ioffset = None\<rparr>],
        db_size = 0\<rparr>
      \<lparr>trace = [], sequences = (\<lambda>h. Some False)\<rparr>))
   \<noteq> claimed_busy_trace ''plc''"
  by code_simp

text \<open>
  C6, amended: a single-target request, read or write, that finds the gate of its host
  taken checks it up to 20 times; it waits 50 ms times the attempt index before each of
  the attempts 0 to 18 and does not wait before the last one (index 19); if the gate is
  taken at all 20 checks the request fails with \<open>113: TCP : Unreachable peer\<close> and no call
  of the transport is made.
\<close>

theorem C6_gate_busy:
  assumes "\<And>n g. sch_env sch n g (cfg_host config) = Some False"
    and "sequences w (cfg_host config) = Some False"
  shows "fst (getS7Data_single sch config db w) = Inl (ErrText ''113: TCP : Unreachable peer'') \<and>
         trace (snd (getS7Data_single sch config db w)) = trace w @ busy_trace (cfg_host config) \<and>
         fst (setS7Data_single sch config db w) = Inl (ErrText ''113: TCP : Unreachable peer'') \<and>
         trace (snd (setS7Data_single sch config db w)) = trace w @ busy_trace (cfg_host config) \<and>
         \<not> list_ex is_transport_call (busy_trace (cfg_host config))"
proof -
  have n: "\<not> list_ex is_transport_call (busy_trace (cfg_host config))"
    by (simp add: busy_trace_def list_ex_iff is_transport_call_def)
  have r: "fst (getS7Data_single sch config db w) = Inl (ErrText ''113: TCP : Unreachable peer'') \<and>
         trace (snd (getS7Data_single sch config db w)) = trace w @ busy_trace (cfg_host config)"
    using attempts_busy[of sch "cfg_host config" w 0
        "S7_read_static (sch_fp sch) (sch_tr sch) config db", OF assms(1) assms(2)]
    by (simp add: getS7Data_single_def busy_trace_def)
  have wr: "fst (setS7Data_single sch config db w) = Inl (ErrText ''113: TCP : Unreachable peer'') \<and>
         trace (snd (setS7Data_single sch config db w)) = trace w @ busy_trace (cfg_host config)"
    using attempts_busy[of sch "cfg_host config" w 0
        "S7_write_static (sch_fp sch) (sch_tr sch) config db", OF assms(1) assms(2)]
    by (simp add: setS7Data_single_def busy_trace_def)
  from r wr n show ?thesis by simp
qed

theorem C6_gate_busy_witness:
  "fst (getS7Data_single
      \<lparr>sch_fp = \<lparr>float_bytes = (\<lambda>v. []), bytes_float = (\<lambda>bs. VNaN), double_bytes = (\<lambda>v. []), bytes_double = (\<lambda>bs. VNaN)\<rparr>,
        sch_tr = \<lparr>ConnectTo = (\<lambda>n h r s. None), DBRead = (\<lambda>n db off sz. Inr (replicate sz 0)),
                  DBWrite = (\<lambda>n db off sz b. None), ErrorText = (\<lambda>e. [])\<rparr>,
        sch_env = (\<lambda>n g h. Some False)\<rparr>
      \<lparr>cfg_host = ''plc'', cfg_rack = 0, cfg_slot = 1, cfg_bufferSize = 0, cfg_staticSize = 0, cfg_debug = False\<rparr>
      \<lparr>db_name = ''A'', db_db = 1, db_offset = 0,
        db_items = [\<lparr>iname = ''n'', itype = ''INT'', istrlen = None, isize = None, ivalue = VUndef, ioffset = None\<rparr>],
        db_size = 0\<rparr>
      \<lparr>trace = [], sequences = (\<lambda>h. Some False)\<rparr>) = Inl (ErrText ''113: TCP : Unreachable peer'') \<and>
   trace (snd (setS7Data_single
      \<lparr>sch_fp = \<lparr>float_bytes = (\<lambda>v. []), bytes_float = (\<lambda>bs. VNaN), double_bytes = (\<lambda>v. []), bytes_double = (\<lambda>bs. VNaN)\<rparr>,
        sch_tr = \<lparr>ConnectTo = (\<lambda>n h r s. None), DBRead = (\<lambda>n db off sz. Inr (replicate sz 0)),
                  DBWrite = (\<lambda>n db off sz b. None), ErrorText = (\<lambda>e. [])\<rparr>,
        sch_env = (\<lambda>n g h. Some False)\<rparr>
      \<lparr>cfg_host = ''plc'', cfg_rack = 0, cfg_slot = 1, cfg_bufferSize = 0, cfg_staticSize = 0, cfg_debug = False\<rparr>
      \<lparr>db_name = ''A'', db_db = 1, db_offset = 0,
        db_items = [\<lparr>iname = ''n'', itype = ''INT'', istrlen = None, isize = None, ivalue = VUndef, ioffset = None\<rparr>],
        db_size = 0\<rparr>
      \<lparr>trace = [], sequences = (\<lambda>h. Some False)\<rparr>)) = busy_trace ''plc''"
  using C6_gate_busy[of
      "\<lparr>sch_fp = \<lparr>float_bytes = (\<lambda>v. []), bytes_float = (\<lambda>bs. VNaN), double_bytes = (\<lambda>v. []), bytes_double = (\<lambda>bs. VNaN)\<rparr>,
        sch_tr = \<lparr>ConnectTo = (\<lambda>n h r s. None), DBRead = (\<lambda>n db off sz. Inr (replicate sz 0)),
                  DBWrite = (\<lambda>n db off sz b. None), ErrorText = (\<lambda>e. [])\<rparr>,
        sch_env = (\<lambda>n g h. Some False)\<rparr>"
      "\<lparr>cfg_host = ''plc'', cfg_rack = 0, cfg_slot = 1, cfg_bufferSize = 0, cfg_staticSize = 0, cfg_debug = False\<rparr>"
      "\<lparr>trace = [], sequences = (\<lambda>h. Some False)\<rparr>"
      "\<lparr>db_name = ''A'', db_db = 1, db_offset = 0,
        db_items = [\<lparr>iname = ''n'', itype = ''INT'', istrlen = None, isize = None, ivalue = VUndef, ioffset = None\<rparr>],
        db_size = 0\<rparr>"]
  by simp

section \<open>Request Scheduler: batches\<close>

lemma getS7Data_batch_results:
  "fst (getS7Data_batch sch config dbs acc w) =
     acc @ concat (map spread (sequential_results (sch_env sch) (getS7Data_single sch config) dbs w))"
proof (induction dbs arbitrary: acc w)
  case Nil
  show ?case by simp
next
  case (Cons d ds)
  show ?case
    by (simp add: split_def Let_def Cons.IH spread_def split: sum.splits)
qed

lemma setS7Data_batch_results:
  "fst (setS7Data_batch sch config dbs acc w) =
     acc @ map carried (sequential_results (sch_env sch) (setS7Data_single sch config) dbs w)"
proof (induction dbs arbitrary: acc w)
  case Nil
  show ?case by simp
next
  case (Cons d ds)
  show ?case
    by (simp add: split_def Let_def Cons.IH carried_def split: sum.splits)
qed

lemma length_sequential_results: "length (sequential_results env f ds w) = length ds"
  by (induction ds arbitrary: w) (simp_all add: split_def Let_def)

text \<open>
  C7, as stated: a batch call resolves, for reads and for writes, with the outcomes of its
  entries rather than rejecting. A batch write of two datablocks whose second write the
  transport refuses rejects.
\<close>

theorem C7_counterexample:
  "isl (fst (setS7Data
      \<lparr>sch_fp = \<lparr>float_bytes = (\<lambda>v. []), bytes_float = (\<lambda>bs. VNaN), double_bytes = (\<lambda>v. []), bytes_double = (\<lambda>bs. VNaN)\<rparr>,
        sch_tr = \<lparr>ConnectTo = (\<lambda>n h r s. None), DBRead = (\<lambda>n db off sz. Inr (replicate sz 0)),
                  DBWrite = (\<lambda>n db off sz b. if db = 2 then Some 5 else None), ErrorText = (\<lambda>e. [])\<rparr>,
        sch_env = (\<lambda>n g. g)\<rparr>
      \<lparr>cfg_host = ''plc'', cfg_rack = 0, cfg_slot = 1, cfg_bufferSize = 0, cfg_staticSize = 0, cfg_debug = False\<rparr>
      (Many [\<lparr>db_name = ''A'', db_db = 1, db_offset = 0,
               db_items = [\<lparr>iname = ''a'', itype = ''INT'', istrlen = None, isize = None, ivalue = VNum 7, ioffset = None\<rparr>],
               db_size = 0\<rparr>,
             \<lparr>db_name = ''B'', db_db = 2, db_offset = 0,
               db_items = [\<lparr>iname = ''b'', itype = ''INT'', istrlen = None, isize = None, ivalue = VNum 8, ioffset = None\<rparr>],
               db_size = 0\<rparr>])
      \<lparr>trace = [], sequences = (\<lambda>h. None)\<rparr>))"
  by code_simp

text \<open>
  C7, amended: a batch runs all its entries in order, whatever the outcome of each. A batch
  read always resolves, with the concatenation in entry order of what each entry
  contributes: its decoded values when it succeeded, its one carried error when it failed.
  A batch write resolves with no value when every entry succeeded; otherwise it rejects,
  and the value it rejects with is the sequence, one element for each entry at the entry's
  position, of \<open>false\<close> for a success and the carried error for a failure.
\<close>

theorem C7_batches:
  "fst (getS7Data sch config (Many dbs) w) =
     Inr (concat (map spread (sequential_results (sch_env sch) (getS7Data_single sch config) dbs w))) \<and>
   length (sequential_results (sch_env sch) (getS7Data_single sch config) dbs w) = length dbs \<and>
   fst (setS7Data sch config (Many dbs) w) =
     (if list_all (\<lambda>x. x = None) (map carried (sequential_results (sch_env sch) (setS7Data_single sch config) dbs w))
      then Inr ()
      else Inl (ErrBatch (map carried (sequential_results (sch_env sch) (setS7Data_single sch config) dbs w)))) \<and>
   length (map carried (sequential_results (sch_env sch) (setS7Data_single sch config) dbs w)) = length dbs"
proof -
  have g: "fst (getS7Data sch config (Many dbs) w) = Inr (fst (getS7Data_batch sch config dbs [] w))"
    by (simp add: getS7Data_def split_def Let_def)
  have s: "fst (setS7Data sch config (Many dbs) w) =
      (if list_all (\<lambda>x. x = None) (fst (setS7Data_batch sch config dbs [] w)) then Inr ()
       else Inl (ErrBatch (fst (setS7Data_batch sch config dbs [] w))))"
    by (simp add: setS7Data_def split_def Let_def)
  show ?thesis
    unfolding g s getS7Data_batch_results setS7Data_batch_results
    by (simp add: length_sequential_results)
qed

section \<open>Variable Router\<close>









section \<open>The types\<close>

lemma toLocaleUpperCase_types:
  "toLocaleUpperCase ''BIT'' = ''BIT''"
  "toLocaleUpperCase ''BOOL'' = ''BOOL''"
  "toLocaleUpperCase ''BYTE'' = ''BYTE''"
  "toLocaleUpperCase ''SINT'' = ''SINT''"
  "toLocaleUpperCase ''USINT'' = ''USINT''"
  "toLocaleUpperCase ''INT'' = ''INT''"
  "toLocaleUpperCase ''UINT'' = ''UINT''"
  "toLocaleUpperCase ''WORD'' = ''WORD''"
  "toLocaleUpperCase ''DINT'' = ''DINT''"
  "toLocaleUpperCase ''UDINT'' = ''UDINT''"
  "toLocaleUpperCase ''DWORD'' = ''DWORD''"
  "toLocaleUpperCase ''REAL'' = ''REAL''"
  "toLocaleUpperCase ''FLOAT'' = ''FLOAT''"
  "toLocaleUpperCase ''LREAL'' = ''LREAL''"
  "toLocaleUpperCase ''DOUBLE'' = ''DOUBLE''"
  "toLocaleUpperCase ''CHAR'' = ''CHAR''"
  "toLocaleUpperCase ''STRING'' = ''STRING''"
  "toLocaleUpperCase ''TIME'' = ''TIME''"
  "toLocaleUpperCase ''TIMER'' = ''TIMER''"
  "toLocaleUpperCase ''S5TIME'' = ''S5TIME''"
  "toLocaleUpperCase ''IEC_TIMER'' = ''IEC_TIMER''"
  by code_simp+

lemma variableTypeSize_types:
  "variableTypeSize ''BIT'' = 1"
  "variableTypeSize ''BOOL'' = 1"
  "variableTypeSize ''BYTE'' = 1"
  "variableTypeSize ''SINT'' = 1"
  "variableTypeSize ''USINT'' = 1"
  "variableTypeSize ''INT'' = 2"
  "variableTypeSize ''UINT'' = 2"
  "variableTypeSize ''WORD'' = 2"
  "variableTypeSize ''DINT'' = 4"
  "variableTypeSize ''UDINT'' = 4"
  "variableTypeSize ''DWORD'' = 4"
  "variableTypeSize ''REAL'' = 4"
  "variableTypeSize ''FLOAT'' = 4"
  "variableTypeSize ''LREAL'' = 8"
  "variableTypeSize ''DOUBLE'' = 8"
  "variableTypeSize ''CHAR'' = 1"
  "variableTypeSize ''STRING'' = 256"
  "variableTypeSize ''TIME'' = 4"
  "variableTypeSize ''TIMER'' = 4"
  "variableTypeSize ''S5TIME'' = 2"
  "variableTypeSize ''IEC_TIMER'' = 16"
  by code_simp+

lemma typeIsNumber_types:
  "typeIsNumber ''BIT'' = True"
  "typeIsNumber ''BOOL'' = False"
  "typeIsNumber ''BYTE'' = True"
  "typeIsNumber ''SINT'' = True"
  "typeIsNumber ''USINT'' = True"
  "typeIsNumber ''INT'' = True"
  "typeIsNumber ''UINT'' = True"
  "typeIsNumber ''WORD'' = True"
  "typeIsNumber ''DINT'' = True"
  "typeIsNumber ''UDINT'' = True"
  "typeIsNumber ''DWORD'' = True"
  "typeIsNumber ''REAL'' = True"
  "typeIsNumber ''FLOAT'' = True"
  "typeIsNumber ''LREAL'' = True"
  "typeIsNumber ''DOUBLE'' = True"
  "typeIsNumber ''CHAR'' = False"
  "typeIsNumber ''STRING'' = False"
  "typeIsNumber ''TIME'' = True"
  "typeIsNumber ''TIMER'' = True"
  "typeIsNumber ''S5TIME'' = True"
  "typeIsNumber ''IEC_TIMER'' = False"
  by code_simp+

lemma typeIsObject_types:
  "typeIsObject ''BIT'' = False"
  "typeIsObject ''BOOL'' = False"
  "typeIsObject ''BYTE'' = False"
  "typeIsObject ''SINT'' = False"
  "typeIsObject ''USINT'' = False"
  "typeIsObject ''INT'' = False"
  "typeIsObject ''UINT'' = False"
  "typeIsObject ''WORD'' = False"
  "typeIsObject ''DINT'' = False"
  "typeIsObject ''UDINT'' = False"
  "typeIsObject ''DWORD'' = False"
  "typeIsObject ''REAL'' = False"
  "typeIsObject ''FLOAT'' = False"
  "typeIsObject ''LREAL'' = False"
  "typeIsObject ''DOUBLE'' = False"
  "typeIsObject ''CHAR'' = False"
  "typeIsObject ''STRING'' = False"
  "typeIsObject ''TIME'' = False"
  "typeIsObject ''TIMER'' = False"
  "typeIsObject ''S5TIME'' = False"
  "typeIsObject ''IEC_TIMER'' = True"
  by code_simp+

lemma isBoolean_types:
  "isBoolean ''BIT'' = True"
  "isBoolean ''BOOL'' = True"
  "isBoolean ''BYTE'' = False"
  "isBoolean ''SINT'' = False"
  "isBoolean ''USINT'' = False"
  "isBoolean ''INT'' = False"
  "isBoolean ''UINT'' = False"
  "isBoolean ''WORD'' = False"
  "isBoolean ''DINT'' = False"
  "isBoolean ''UDINT'' = False"
  "isBoolean ''DWORD'' = False"
  "isBoolean ''REAL'' = False"
  "isBoolean ''FLOAT'' = False"
  "isBoolean ''LREAL'' = False"
  "isBoolean ''DOUBLE'' = False"
  "isBoolean ''CHAR'' = False"
  "isBoolean ''STRING'' = False"
  "isBoolean ''TIME'' = False"
  "isBoolean ''TIMER'' = False"
  "isBoolean ''S5TIME'' = False"
  "isBoolean ''IEC_TIMER'' = False"
  by (simp_all add: isBoolean_def)

lemma isString_types:
  "isString ''BIT'' = False"
  "isString ''BOOL'' = False"
  "isString ''BYTE'' = False"
  "isString ''SINT'' = False"
  "isString ''USINT'' = False"
  "isString ''INT'' = False"
  "isString ''UINT'' = False"
  "isString ''WORD'' = False"
  "isString ''DINT'' = False"
  "isString ''UDINT'' = False"
  "isString ''DWORD'' = False"
  "isString ''REAL'' = False"
  "isString ''FLOAT'' = False"
  "isString ''LREAL'' = False"
  "isString ''DOUBLE'' = False"
  "isString ''CHAR'' = False"
  "isString ''STRING'' = True"
  "isString ''TIME'' = False"
  "isString ''TIMER'' = False"
  "isString ''S5TIME'' = False"
  "isString ''IEC_TIMER'' = False"
  by (simp_all add: isString_def)

lemmas type_facts = toLocaleUpperCase_types variableTypeSize_types typeIsNumber_types
  typeIsObject_types isBoolean_types isString_types


section \<open>Reading and writing bytes\<close>

lemma length_be_bytes [simp]: "length (be_bytes w v) = w"
  by (simp add: be_bytes_def)




lemma write_bytes_Some:
  "off + length bs \<le> length buf \<Longrightarrow>
   write_bytes buf off bs = Some (take off buf @ bs @ drop (off + length bs) buf)"
  by (simp add: write_bytes_def)

lemma write_bytes_length: "write_bytes buf off bs = Some buf' \<Longrightarrow> length buf' = length buf"
  by (auto simp: write_bytes_def split: if_splits)

lemma write_bytes_take: "write_bytes buf off bs = Some buf' \<Longrightarrow> take off buf' = take off buf"
  by (auto simp: write_bytes_def split: if_splits)

lemma write_bytes_read:
  "write_bytes buf off bs = Some buf' \<Longrightarrow> read_bytes buf' off (length bs) = Some bs"
  by (auto simp: write_bytes_def read_bytes_def split: if_splits)


lemma read_bytes_Some:
  "off + w \<le> length buf \<Longrightarrow> read_bytes buf off w = Some (take w (drop off buf))"
  by (simp add: read_bytes_def)

lemma sint8: "sint (x :: 8 word) = (if uint x < 128 then uint x else uint x - 256)"
proof -
  have hi: "uint x < 256" using uint_lt2p[of x] by simp
  have lo: "0 \<le> uint x" by simp
  have s: "sint x = (uint x + 128) mod 256 - 128"
    by (simp add: sint_uint signed_take_bit_eq_take_bit_shift take_bit_eq_mod)
  show ?thesis
  proof (cases "uint x < 128")
    case True
    then have "(uint x + 128) mod 256 = uint x + 128" using lo by (intro mod_pos_pos_trivial) simp_all
    with True s show ?thesis by simp
  next
    case False
    have "uint x + 128 = uint x - 128 + 256" by arith
    then have "(uint x + 128) mod 256 = (uint x - 128 + 256) mod 256" by (rule arg_cong)
    also have "\<dots> = (uint x - 128) mod 256" by (simp only: mod_add_self2)
    also have "\<dots> = uint x - 128" using False hi by (intro mod_pos_pos_trivial) simp_all
    finally show ?thesis using False s by simp
  qed
qed

lemma be_value_single: "be_value [b] = uint b"
  by (simp add: be_value_def)


lemma readUInt8_None: "\<not> off < length buf \<Longrightarrow> readUInt8 buf off = None"
  by (simp add: readUInt8_def readUIntBE_def read_bytes_def)

lemma readInt8_eq: "off < length buf \<Longrightarrow> readInt8 buf off = Some (sint (buf ! off))"
  by (simp add: readInt8_def readIntBE_def read_bytes_def take_Suc_conv_app_nth
      hd_drop_conv_nth take_Suc be_value_single sint8)

lemma js_shr_bit: "k < 8 \<Longrightarrow> (js_shr (sint (x :: 8 word)) (int k) AND 1 \<noteq> 0) = bit x k"
proof -
  assume k: "k < 8"
  have lo: "- (2 ^ 31) \<le> sint x" using sint_ge[of x] by simp
  have hi: "sint x < 2 ^ 31" using sint_lt[of x] by simp
  have s: "signed_take_bit 31 (sint x) = sint x"
    using lo hi by (rule signed_take_bit_int_eq_self)
  have m: "int k mod 32 = int k" using k by simp
  have "js_shr (sint x) (int k) = drop_bit k (sint x)"
    by (simp add: js_shr_def s m drop_bit_eq_div)
  then have "(js_shr (sint x) (int k) AND 1 \<noteq> 0) = odd (drop_bit k (sint x))"
    by (simp add: and_one_eq odd_iff_mod_2_eq_one)
  also have "\<dots> = bit (sint x) k" by (simp add: bit_iff_odd_drop_bit)
  also have "\<dots> = bit x k" using k by (simp add: bit_sint_iff)
  finally show ?thesis .
qed

lemma parseBooleanFromBuffer_bit:
  "off < length buf \<Longrightarrow> k < 8 \<Longrightarrow> parseBooleanFromBuffer buf off (int k) = Some (bit (buf ! off) k)"
proof -
  assume a: "off < length buf" and k: "k < 8"
  have r: "js_rem (int k) 8 = int k"
  proof (cases "k = 0")
    case True
    then show ?thesis by (simp add: js_rem_def)
  next
    case False
    then have "sgn (int k) = 1" by simp
    moreover have "\<bar>int k\<bar> mod \<bar>8::int\<bar> = int k" using k by simp
    ultimately show ?thesis by (simp only: js_rem_def mult_1)
  qed
  have n7: "\<not> int k > 7" using k by simp
  have "parseBooleanFromBuffer buf off (int k) =
      (case readInt8 buf off of None \<Rightarrow> None
       | Some byte \<Rightarrow> Some (js_shr byte (int k) AND 1 \<noteq> 0))"
    unfolding parseBooleanFromBuffer_def Let_def r using n7 by (simp only: if_False add_0_right)
  also have "\<dots> = Some (js_shr (sint (buf ! off)) (int k) AND 1 \<noteq> 0)"
    by (simp only: readInt8_eq[OF a] option.case)
  also have "\<dots> = Some (bit (buf ! off) k)"
    by (simp only: js_shr_bit[OF k])
  finally show ?thesis .
qed


lemma parseValue_UDINT:
  "off + 4 \<le> length buf \<Longrightarrow>
   parseValueFromBuffer_scalar fp buf ''UDINT'' off i e = VNum (be_value (take 4 (drop off buf)))"
  by (simp add: parseValueFromBuffer_scalar_def parseValue_switch_def type_facts num_val_def
      readUInt32BE_def readUIntBE_def read_bytes_def)

lemma parseValue_TIME:
  "off + 4 \<le> length buf \<Longrightarrow>
   parseValueFromBuffer_scalar fp buf ''TIME'' off i e = VNum (be_value (take 4 (drop off buf)))"
  by (simp add: parseValueFromBuffer_scalar_def parseValue_switch_def type_facts num_val_def
      parseTimeFromBuffer_def readUInt32BE_def readUIntBE_def read_bytes_def)

lemma parseValue_UINT:
  "off + 2 \<le> length buf \<Longrightarrow>
   parseValueFromBuffer_scalar fp buf ''UINT'' off i e = VNum (be_value (take 2 (drop off buf)))"
  by (simp add: parseValueFromBuffer_scalar_def parseValue_switch_def type_facts num_val_def
      readUInt16BE_def readUIntBE_def read_bytes_def)

lemma parseValue_BOOL:
  "off < length buf \<Longrightarrow> k < 8 \<Longrightarrow>
   parseValueFromBuffer_scalar fp buf ''BOOL'' off (int k) e = VBool (bit (buf ! off) k)"
  by (simp add: parseValueFromBuffer_scalar_def parseValue_switch_def type_facts
      parseBooleanFromBuffer_bit)


section \<open>IEC_TIMER\<close>

text \<open>
  C8: decoding one IEC_TIMER item from its 16 bytes yields exactly six entries, named after
  the item with the suffixes \<open>.start\<close>, \<open>.PT\<close>, \<open>.ET\<close>, \<open>.IN\<close>, \<open>.Q\<close> and \<open>.end\<close>, and no entry for
  the item itself; \<open>IN\<close> is bit 0 and \<open>Q\<close> bit 1 of the byte at offset 12, \<open>start\<close>, \<open>PT\<close> and
  \<open>ET\<close> are the big-endian values of the bytes 0 to 3, 4 to 7 and 8 to 11, and \<open>end\<close> that of
  the bytes 14 and 15.
\<close>

theorem C8_IEC_TIMER_decode:
  assumes "length buf = 16" and "itype it = ''IEC_TIMER''" and "\<not> size_gt_1 (isize it)"
  shows "DBStructure_parse fp (db\<lparr>db_items := [it]\<rparr>) buf =
     [(iname it @ ''.start'', ''UDINT'', VNum (be_value (take 4 buf))),
      (iname it @ ''.PT'', ''TIME'', VNum (be_value (take 4 (drop 4 buf)))),
      (iname it @ ''.ET'', ''TIME'', VNum (be_value (take 4 (drop 8 buf)))),
      (iname it @ ''.IN'', ''BOOL'', VBool (bit (buf ! 12) 0)),
      (iname it @ ''.Q'', ''BOOL'', VBool (bit (buf ! 12) 1)),
      (iname it @ ''.end'', ''UINT'', VNum (be_value (take 2 (drop 14 buf))))]"
proof -
  have timer: "parseIECTimerFromBuffer fp buf 0 =
     [(''start'', ''UDINT'', VNum (be_value (take 4 buf))),
      (''PT'', ''TIME'', VNum (be_value (take 4 (drop 4 buf)))),
      (''ET'', ''TIME'', VNum (be_value (take 4 (drop 8 buf)))),
      (''IN'', ''BOOL'', VBool (bit (buf ! 12) 0)),
      (''Q'', ''BOOL'', VBool (bit (buf ! 12) 1)),
      (''end'', ''UINT'', VNum (be_value (take 2 (drop 14 buf))))]"
    using assms(1) parseValue_BOOL[of 12 buf 0 fp 256] parseValue_BOOL[of 12 buf 1 fp 256]
    by (simp add: parseIECTimerFromBuffer_def parseValue_UDINT parseValue_TIME parseValue_UINT)
  have val: "parseValueFromBuffer fp buf ''IEC_TIMER'' 0 i e = VRec (parseIECTimerFromBuffer fp buf 0)" for i e
    by (simp add: parseValueFromBuffer_def type_facts)
  have ts: "item_typesize it ''IEC_TIMER'' = 16"
    by (simp add: item_typesize_def Let_def type_facts)
  have "parse_item fp buf (0, 0) it =
      (flatten_object (iname it) (VRec (parseIECTimerFromBuffer fp buf 0)), (16, 0))"
    using assms(2,3)
    by (simp add: parse_item_def Let_def type_facts ts val cursor_enter_def cursor_leave_def
        roundUpToEven_def)
  then show ?thesis
    by (simp add: DBStructure_parse_def timer flatten_object_def)
qed

theorem C8_IEC_TIMER_decode_witness:
  "DBStructure_parse
      \<lparr>float_bytes = (\<lambda>v. []), bytes_float = (\<lambda>bs. VNaN), double_bytes = (\<lambda>v. []), bytes_double = (\<lambda>bs. VNaN)\<rparr>
      \<lparr>db_name = ''DB1'', db_db = 1, db_offset = 0,
        db_items = [\<lparr>iname = ''T1'', itype = ''IEC_TIMER'', istrlen = None, isize = Some 1,
                     ivalue = VUndef, ioffset = Some 0\<rparr>],
        db_size = 16\<rparr>
      [0, 0, 0, 1, 0, 0, 0, 2, 0, 0, 0, 3, 2, 0, 0, 9]
    = [(''T1.start'', ''UDINT'', VNum 1), (''T1.PT'', ''TIME'', VNum 2), (''T1.ET'', ''TIME'', VNum 3),
       (''T1.IN'', ''BOOL'', VBool False), (''T1.Q'', ''BOOL'', VBool True),
       (''T1.end'', ''UINT'', VNum 9)]"
  using C8_IEC_TIMER_decode[of "[0, 0, 0, 1, 0, 0, 0, 2, 0, 0, 0, 3, 2, 0, 0, 9]"
      "\<lparr>iname = ''T1'', itype = ''IEC_TIMER'', istrlen = None, isize = Some 1,
                     ivalue = VUndef, ioffset = Some 0\<rparr>"
      "\<lparr>float_bytes = (\<lambda>v. []), bytes_float = (\<lambda>bs. VNaN), double_bytes = (\<lambda>v. []), bytes_double = (\<lambda>bs. VNaN)\<rparr>"
      "\<lparr>db_name = ''DB1'', db_db = 1, db_offset = 0,
        db_items = [\<lparr>iname = ''T1'', itype = ''IEC_TIMER'', istrlen = None, isize = Some 1,
                     ivalue = VUndef, ioffset = Some 0\<rparr>],
        db_size = 16\<rparr>"]
  by (simp add: size_gt_1_def be_value_def)

section \<open>STRING\<close>
















section \<open>Round trip\<close>

subsection \<open>The encoder and the decoder, type by type\<close>









































subsection \<open>One value of a type other than BOOL\<close>
























subsection \<open>One bit\<close>





subsection \<open>Cursors and prefixes\<close>







subsection \<open>Arrays\<close>




subsection \<open>One item written, one item read\<close>













subsection \<open>The two loops\<close>






subsection \<open>The cursor of the Layout Calculator\<close>








subsection \<open>Encoding, then decoding\<close>


text \<open>
  Two more types do not come back, for want of a statement in the code rather than by
  intent. The \<open>switch\<close> of \<open>encodeValueToBuffer\<close> has no case for BIT, which the decoder
  has: a BIT that is true is written as the 16-bit number 1 and read back false. And the
  array branch hands the first boolean of an array the bit index \<open>-1\<close>, in the encoder as in
  the decoder: the first element of an array of BOOL is never written and always read false.
\<close>

lemma BIT_not_restored:
  "DBStructure_parse
      \<lparr>float_bytes = (\<lambda>v. []), bytes_float = (\<lambda>bs. VNaN), double_bytes = (\<lambda>v. []), bytes_double = (\<lambda>bs. VNaN)\<rparr>
      (snd (DBStructure_encode
        \<lparr>float_bytes = (\<lambda>v. []), bytes_float = (\<lambda>bs. VNaN), double_bytes = (\<lambda>v. []), bytes_double = (\<lambda>bs. VNaN)\<rparr>
        \<lparr>db_name = ''DB1'', db_db = 1, db_offset = 0,
          db_items = [\<lparr>iname = ''b'', itype = ''BIT'', istrlen = None, isize = None, ivalue = VBool True, ioffset = None\<rparr>],
          db_size = 0\<rparr>))
      (fst (DBStructure_encode
        \<lparr>float_bytes = (\<lambda>v. []), bytes_float = (\<lambda>bs. VNaN), double_bytes = (\<lambda>v. []), bytes_double = (\<lambda>bs. VNaN)\<rparr>
        \<lparr>db_name = ''DB1'', db_db = 1, db_offset = 0,
          db_items = [\<lparr>iname = ''b'', itype = ''BIT'', istrlen = None, isize = None, ivalue = VBool True, ioffset = None\<rparr>],
          db_size = 0\<rparr>))
   = [(''b'', ''BIT'', VBool False)]"
  by code_simp

lemma BOOL_array_not_restored:
  "DBStructure_parse
      \<lparr>float_bytes = (\<lambda>v. []), bytes_float = (\<lambda>bs. VNaN), double_bytes = (\<lambda>v. []), bytes_double = (\<lambda>bs. VNaN)\<rparr>
      (snd (DBStructure_encode
        \<lparr>float_bytes = (\<lambda>v. []), bytes_float = (\<lambda>bs. VNaN), double_bytes = (\<lambda>v. []), bytes_double = (\<lambda>bs. VNaN)\<rparr>
        \<lparr>db_name = ''DB1'', db_db = 1, db_offset = 0,
          db_items = [\<lparr>iname = ''bs'', itype = ''BOOL'', istrlen = None, isize = Some 3, ivalue = VArr [VBool True, VBool True, VBool True], ioffset = None\<rparr>],
          db_size = 0\<rparr>))
      (fst (DBStructure_encode
        \<lparr>float_bytes = (\<lambda>v. []), bytes_float = (\<lambda>bs. VNaN), double_bytes = (\<lambda>v. []), bytes_double = (\<lambda>bs. VNaN)\<rparr>
        \<lparr>db_name = ''DB1'', db_db = 1, db_offset = 0,
          db_items = [\<lparr>iname = ''bs'', itype = ''BOOL'', istrlen = None, isize = Some 3, ivalue = VArr [VBool True, VBool True, VBool True], ioffset = None\<rparr>],
          db_size = 0\<rparr>))
   = [(''bs'', ''BOOL'', VArr [VBool False, VBool True, VBool True])]"
  by code_simp



end
